theory Spec2Isabelle
  imports Main
begin

section \<open>Data model of the attribution generator\<close>

text \<open>
  The Go package \<open>gen-attributions/cmd\<close> resolves the dependency graph of a Go module and
  attaches a license to every dependency. Byte slices are modelled as \<open>string\<close>
  (a \<open>char\<close> is one byte).
\<close>

type_synonym bytes = string

text \<open>\<open>module.Version\<close> of golang.org/x/mod: the fields \<open>Path\<close> and \<open>Version\<close>.\<close>

record module_Version =
  Path :: string
  Ver :: string

text \<open>
  Error values. The two sentinels are the package variables of the graph builder;
  \<open>Errorf\<close> is an error built by \<open>fmt.Errorf\<close> from a message and the error formatted
  into it; \<open>External\<close> is an error produced by a collaborator.
\<close>

datatype error =
    ErrorGoModFileNotFound
  | ErrorLicenseNotFound
  | Errorf string error
  | External string

text \<open>
  How a call can fail to return a value: an error value returned to the caller,
  termination of the process by \<open>log.Fatal\<close>, or a run-time panic.
\<close>

datatype abort = Err error | Exit error | Panic

record License =
  Data :: bytes
  Name :: string

text \<open>
  \<open>Module\<close> of module.go. The pointer fields \<open>ReplacedBy\<close> and \<open>License\<close> may be nil;
  a nil and an empty \<open>Dependencies\<close> slice are both the empty list.
\<close>

datatype Module =
  Module (Version: module_Version) (ReplacedBy: "module_Version option")
         (License: "License option") (Dependencies: "Module list")

text \<open>
  The part of \<open>modfile.File\<close> the builder reads: the module directive (\<open>File.Module\<close> is
  nil when the file has none), the \<open>Mod\<close> of every requirement in declared order, and
  the (\<open>Old\<close>, \<open>New\<close>) pairs of the replace directives.
\<close>

record modFile =
  ModuleMod :: "module_Version option"
  Require :: "module_Version list"
  Replace :: "(module_Version \<times> module_Version) list"

record ModRoot =
  ModFile :: modFile
  RootPath :: string

record Tree =
  Root :: Module

text \<open>A directory entry (\<open>os.FileInfo\<close>) and an entry of a zip archive.\<close>

record FileInfo =
  fileName :: string
  IsDir :: bool

text \<open>
  \<open>zipOpen\<close> is what \<open>file.Open()\<close> followed by \<open>ioutil.ReadAll\<close> gives: the outer
  \<open>Inl\<close> is a failure of \<open>Open\<close>, the inner one a failure of \<open>ReadAll\<close>.
\<close>

record zipFile =
  zipName :: string
  zipOpen :: "error + (error + bytes)"

text \<open>
  Everything the builder takes from outside the two source files: the package variable
  \<open>lenient\<close>, the filesystem, the standard library functions whose behaviour is not
  fixed here (\<open>filepath.Join\<close>, \<open>filepath.Dir\<close>, \<open>strings.ToLower\<close>, the quoting of
  the verb \<open>%q\<close>), the archive retrieval \<open>downloadModule\<close>, the zip reader, the manifest
  parser \<open>modfile.Parse\<close> and the license classifier \<open>detectLicense\<close>.
  \<open>ReadFile\<close> returns the bytes read together with the error, if any, as
  \<open>ioutil.ReadFile\<close> does.
\<close>

record env =
  lenient :: bool
  ReadDir :: "string \<Rightarrow> error + FileInfo list"
  ReadFile :: "string \<Rightarrow> bytes \<times> error option"
  Join :: "string \<Rightarrow> string \<Rightarrow> string"
  Dir :: "string \<Rightarrow> string"
  ToLower :: "string \<Rightarrow> string"
  Quote :: "string \<Rightarrow> string"
  downloadModule :: "module_Version \<Rightarrow> error + bytes"
  zipNewReader :: "bytes \<Rightarrow> error + zipFile list"
  modfileParse :: "bytes \<Rightarrow> error + modFile"
  detectLicense :: "bytes \<Rightarrow> error + string"

text \<open>
  The state of a \<open>graphBuilder\<close>: the modules cache and the warnings written to the
  logger (debug messages are left out). \<open>calls\<close> records, in order, every invocation of the filesystem, of the
  archive retrieval and of the classifier, so that statements about which collaborator
  is invoked can be made.
\<close>

datatype warning = GotDownloadError error | NoLicenseFound module_Version

datatype call =
    CallReadDir string
  | CallReadFile string
  | CallDownload module_Version
  | CallDetectLicense bytes

record graphBuilder =
  modulesCache :: "string \<rightharpoonup> Module"
  logger :: "warning list"
  calls :: "call list"

definition newGraphBuilder :: graphBuilder where
  "newGraphBuilder = \<lparr>modulesCache = Map.empty, logger = [], calls = []\<rparr>"

definition called :: "call \<Rightarrow> graphBuilder \<Rightarrow> graphBuilder" where
  "called c gb = gb\<lparr>calls := calls gb @ [c]\<rparr>"

definition warned :: "warning \<Rightarrow> graphBuilder \<Rightarrow> graphBuilder" where
  "warned w gb = gb\<lparr>logger := logger gb @ [w]\<rparr>"

section \<open>Identity and cache (module.go)\<close>

text \<open>\<open>module.Version.String\<close>: the path alone when the version is empty.\<close>

definition versionString :: "module_Version \<Rightarrow> string" where
  "versionString v = (if Ver v = [] then Path v else Path v @ ''@'' @ Ver v)"

text \<open>
  \<open>moduleID\<close>: the result of the \<open>Sprintf\<close> in the branch for a replaced module is not
  assigned, so \<open>replaceByDetail\<close> is still empty at the return.
\<close>

definition moduleID :: "Module \<Rightarrow> string" where
  "moduleID m =
     (let replaceByDetail = '''';
          discarded = (case ReplacedBy m of
                         None \<Rightarrow> ''''
                       | Some r \<Rightarrow> ''='' @ Ver r @ ''@'' @ Path r)
      in Ver (Version m) @ ''@'' @ Path (Version m) @ replaceByDetail)"

definition getModuleFromCache :: "graphBuilder \<Rightarrow> Module \<Rightarrow> Module option" where
  "getModuleFromCache gb m = modulesCache gb (moduleID m)"

definition cacheModule :: "Module \<Rightarrow> graphBuilder \<Rightarrow> graphBuilder" where
  "cacheModule m gb = gb\<lparr>modulesCache := (modulesCache gb)(moduleID m \<mapsto> m)\<rparr>"

section \<open>Loading the requirements of a manifest\<close>

text \<open>
  \<open>loadModulesFromModFile\<close>: the replacement table is filled in the order of the
  replace directives (a later entry for the same \<open>Old\<close> overwrites an earlier one), then
  one bare \<open>Module\<close> is appended per requirement, in the order of \<open>mod.Require\<close>.
\<close>

definition replacementMap :: "modFile \<Rightarrow> (module_Version \<rightharpoonup> module_Version)" where
  "replacementMap mf = fold (\<lambda>r m. m(fst r \<mapsto> snd r)) (Replace mf) Map.empty"

definition loadModulesFromModFile :: "ModRoot \<Rightarrow> Module list" where
  "loadModulesFromModFile modRoot =
     (let mf = ModFile modRoot
      in map (\<lambda>r. Module r (replacementMap mf r) None []) (Require mf))"

section \<open>Content resolution\<close>

text \<open>\<open>strings.TrimPrefix\<close> on bytes.\<close>

definition TrimPrefix :: "string \<Rightarrow> string \<Rightarrow> string" where
  "TrimPrefix s p = (if take (length p) s = p then drop (length p) s else s)"

definition isLicenseFilename :: "env \<Rightarrow> string \<Rightarrow> bool" where
  "isLicenseFilename e filename =
     (let name = ToLower e filename
      in name \<in> set [''/license.txt'', ''/license'', ''/license.md'', ''/copying''])"

text \<open>The loop of \<open>extractLicense\<close> over the entries of the archive.\<close>

fun extractLicenseFiles :: "env \<Rightarrow> string \<Rightarrow> zipFile list \<Rightarrow> error + bytes" where
  "extractLicenseFiles e moduleFullName [] = Inl ErrorLicenseNotFound"
| "extractLicenseFiles e moduleFullName (file # files) =
     (let cleanFileName = TrimPrefix (zipName file) (ToLower e moduleFullName)
      in if isLicenseFilename e cleanFileName then
           (case zipOpen file of
              Inl err \<Rightarrow> Inl (Errorf ''cannot open license file: '' err)
            | Inr f \<Rightarrow>
                (case f of
                   Inl err \<Rightarrow> Inl (Errorf ''cannot read license file content: '' err)
                 | Inr b \<Rightarrow> Inr b))
         else extractLicenseFiles e moduleFullName files)"

definition extractLicense :: "env \<Rightarrow> string \<Rightarrow> bytes \<Rightarrow> error + bytes" where
  "extractLicense e moduleFullName zipfile =
     (case zipNewReader e zipfile of
        Inl err \<Rightarrow> Inl err
      | Inr files \<Rightarrow> extractLicenseFiles e moduleFullName files)"

definition getRequiredModulesFromBytes :: "env \<Rightarrow> bytes \<Rightarrow> error + ModRoot \<times> Module list" where
  "getRequiredModulesFromBytes e b =
     (case modfileParse e b of
        Inl err \<Rightarrow> Inl err
      | Inr goMod \<Rightarrow>
          (let modRoot = \<lparr>ModFile = goMod, RootPath = []\<rparr>
           in Inr (modRoot, loadModulesFromModFile modRoot)))"

text \<open>The loop of \<open>getRequiredModules\<close> over the entries of the archive.\<close>

fun getRequiredModulesFiles ::
  "env \<Rightarrow> string \<Rightarrow> zipFile list \<Rightarrow> error + ModRoot \<times> Module list" where
  "getRequiredModulesFiles e moduleFullName [] = Inl ErrorGoModFileNotFound"
| "getRequiredModulesFiles e moduleFullName (file # files) =
     (let cleanFileName = TrimPrefix (zipName file) moduleFullName
      in if cleanFileName = ''/go.mod'' then
           (case zipOpen file of
              Inl err \<Rightarrow> Inl (Errorf ''cannot open mod file: '' err)
            | Inr f \<Rightarrow>
                (case f of
                   Inl err \<Rightarrow> Inl (Errorf ''cannot read file content: '' err)
                 | Inr b \<Rightarrow> getRequiredModulesFromBytes e b))
         else getRequiredModulesFiles e moduleFullName files)"

definition getRequiredModules ::
  "env \<Rightarrow> string \<Rightarrow> bytes \<Rightarrow> error + ModRoot \<times> Module list" where
  "getRequiredModules e moduleFullName zipfile =
     (case zipNewReader e zipfile of
        Inl err \<Rightarrow> Inl err
      | Inr files \<Rightarrow> getRequiredModulesFiles e moduleFullName files)"

definition getRequiredModulesFromFile ::
  "env \<Rightarrow> string \<Rightarrow> graphBuilder \<Rightarrow> (error + ModRoot \<times> Module list) \<times> graphBuilder" where
  "getRequiredModulesFromFile e filename gb =
     (let gb1 = called (CallReadFile filename) gb
      in case ReadFile e filename of
           (b, Some err) \<Rightarrow> (Inl err, gb1)
         | (b, None) \<Rightarrow>
             (case modfileParse e b of
                Inl err \<Rightarrow> (Inl err, gb1)
              | Inr goMod \<Rightarrow>
                  (let modRoot = \<lparr>ModFile = goMod, RootPath = Dir e filename\<rparr>
                   in (Inr (modRoot, loadModulesFromModFile modRoot), gb1))))"

text \<open>
  The loop over the entries of the replacement directory. The accumulator is
  (\<open>licenseFile\<close>, \<open>childGoModFilename\<close>) and the builder state; the error of
  \<open>ioutil.ReadFile\<close> is assigned to \<open>err\<close> and never read.
\<close>

fun scanLocalFiles ::
  "env \<Rightarrow> string \<Rightarrow> FileInfo list \<Rightarrow> bytes \<times> string \<Rightarrow> graphBuilder
     \<Rightarrow> (bytes \<times> string) \<times> graphBuilder" where
  "scanLocalFiles e fullPath [] acc gb = (acc, gb)"
| "scanLocalFiles e fullPath (file # files) (licenseFile, childGoModFilename) gb =
     (if \<not> IsDir file \<and> isLicenseFilename e (''/'' @ fileName file) then
        scanLocalFiles e fullPath files
          (fst (ReadFile e (Join e fullPath (fileName file))), childGoModFilename)
          (called (CallReadFile (Join e fullPath (fileName file))) gb)
      else if fileName file = ''go.mod'' then
        scanLocalFiles e fullPath files (licenseFile, Join e fullPath (fileName file)) gb
      else scanLocalFiles e fullPath files (licenseFile, childGoModFilename) gb)"

text \<open>
  \<open>extractLicenseAndRequiredModules\<close> returns the child \<open>ModRoot\<close> (nil is \<open>None\<close>), the
  license bytes and the required modules. In the branch for a replaced module the error
  of \<open>getRequiredModulesFromFile\<close> is assigned and the function returns a nil error.
\<close>

definition extractLicenseAndRequiredModules ::
  "env \<Rightarrow> ModRoot \<Rightarrow> Module \<Rightarrow> graphBuilder
     \<Rightarrow> (abort + ModRoot option \<times> bytes \<times> Module list) \<times> graphBuilder" where
  "extractLicenseAndRequiredModules e modRoot m gb =
     (case ReplacedBy m of
        Some r \<Rightarrow>
          (let fullPath = Join e (RootPath modRoot) (Path r);
               gb1 = called (CallReadDir fullPath) gb
           in case ReadDir e fullPath of
                Inl err \<Rightarrow> (Inl (Exit err), gb1)
              | Inr files \<Rightarrow>
                  (case scanLocalFiles e fullPath files ([], []) gb1 of
                     ((licenseFile, childGoModFilename), gb2) \<Rightarrow>
                       (case getRequiredModulesFromFile e childGoModFilename gb2 of
                          (Inl err, gb3) \<Rightarrow> (Inr (None, licenseFile, []), gb3)
                        | (Inr (childModRoot, childModules), gb3) \<Rightarrow>
                            (Inr (Some childModRoot, licenseFile, childModules), gb3))))
      | None \<Rightarrow>
          (let gb1 = called (CallDownload (Version m)) gb
           in case downloadModule e (Version m) of
                Inl err \<Rightarrow>
                  (if lenient e then (Inr (None, [], []), warned (GotDownloadError err) gb1)
                   else (Inl (Err err), gb1))
              | Inr moduleZip \<Rightarrow>
                  (case (case extractLicense e (versionString (Version m)) moduleZip of
                           Inl err \<Rightarrow>
                             (if \<not> (err = ErrorLicenseNotFound \<and> lenient e) then Inl err
                              else Inr [])
                         | Inr license \<Rightarrow> Inr license) of
                     Inl err \<Rightarrow> (Inl (Err err), gb1)
                   | Inr license \<Rightarrow>
                       (case getRequiredModules e (Ver (Version m)) moduleZip of
                          Inl err \<Rightarrow>
                            (if err \<noteq> ErrorGoModFileNotFound then (Inl (Err err), gb1)
                             else (Inr (None, license, []), gb1))
                        | Inr (childModRoot, requiredModules) \<Rightarrow>
                            (Inr (Some childModRoot, license, requiredModules), gb1)))))"

section \<open>The graph builder\<close>

text \<open>
  The text substituted for a missing license in lenient mode: the verb \<open>%q\<close> quotes
  \<open>mod.Version.String()\<close>.
\<close>

definition unknownLicenseText :: "env \<Rightarrow> module_Version \<Rightarrow> bytes" where
  "unknownLicenseText e v =
     ''WARNING: YOU MUST OVERRIDE THIS WITH A PROPER LICENSE'' @ [CHR 0x0A] @
     ''UNKNOWN LICENSE FOR '' @ Quote e (versionString v)"

text \<open>
  The statements of the loop body between the call of the content resolver and the
  assignment of \<open>mod.License\<close>: the result is (\<open>licenseType\<close>, \<open>license\<close>).
\<close>

definition licenseOf ::
  "env \<Rightarrow> Module \<Rightarrow> bytes \<Rightarrow> graphBuilder \<Rightarrow> (abort + string \<times> bytes) \<times> graphBuilder" where
  "licenseOf e m license gb =
     (if lenient e \<and> length license = 0 then
        (Inr (''Unknown'', unknownLicenseText e (Version m)),
         warned (NoLicenseFound (Version m)) gb)
      else
        (case detectLicense e license of
           Inl err \<Rightarrow> (Inl (Err err), called (CallDetectLicense license) gb)
         | Inr licenseType \<Rightarrow>
             (Inr (licenseType, license), called (CallDetectLicense license) gb)))"

text \<open>
  The loop continues with the remaining modules: the module just handled is put in
  front of what the rest of the loop returns. \<open>None\<close> is a call that has not returned
  within the fuel.
\<close>

fun continue ::
  "Module \<Rightarrow> ((abort + Module list) \<times> graphBuilder) option
     \<Rightarrow> ((abort + Module list) \<times> graphBuilder) option" where
  "continue m None = None"
| "continue m (Some (Inl a, gb)) = Some (Inl a, gb)"
| "continue m (Some (Inr ms, gb)) = Some (Inr (m # ms), gb)"

text \<open>
  \<open>buildModulesDependencyGraph\<close> updates the modules of the slice in place and returns
  an error; the model returns the updated modules. The first argument bounds the depth
  of the nested calls: each recursive call for the requirements of a child manifest
  takes one unit, and a call that would need more returns \<open>None\<close>. \<open>depth\<close> grows by one
  per nested call from 0, so the wrap-around of Go's \<open>int\<close> is out of reach and the
  depths are unbounded integers.
\<close>

fun buildModulesDependencyGraph ::
  "nat \<Rightarrow> env \<Rightarrow> ModRoot \<Rightarrow> Module list \<Rightarrow> int \<Rightarrow> int \<Rightarrow> graphBuilder
     \<Rightarrow> ((abort + Module list) \<times> graphBuilder) option" where
  "buildModulesDependencyGraph fuel e modRoot [] depth maxDepth gb = Some (Inr [], gb)"
| "buildModulesDependencyGraph fuel e modRoot (m # mods) depth maxDepth gb =
     (if depth = maxDepth then
        continue m (buildModulesDependencyGraph fuel e modRoot mods depth maxDepth gb)
      else
        (case getModuleFromCache gb m of
           Some cachedMod \<Rightarrow>
             continue
               (Module (Version m) (ReplacedBy m) (License cachedMod) (Dependencies cachedMod))
               (buildModulesDependencyGraph fuel e modRoot mods depth maxDepth gb)
         | None \<Rightarrow>
             (case extractLicenseAndRequiredModules e modRoot m gb of
                (Inl a, gb1) \<Rightarrow> Some (Inl a, gb1)
              | (Inr (childModRoot, license, childModules), gb1) \<Rightarrow>
                  (case licenseOf e m license gb1 of
                     (Inl a, gb2) \<Rightarrow> Some (Inl a, gb2)
                   | (Inr (licenseType, license'), gb2) \<Rightarrow>
                       (let m1 = Module (Version m) (ReplacedBy m)
                                   (Some \<lparr>Data = license', Name = licenseType\<rparr>)
                                   (Dependencies m)
                        in case childModRoot of
                             None \<Rightarrow>
                               continue m1
                                 (buildModulesDependencyGraph fuel e modRoot mods depth maxDepth
                                    (cacheModule m1 gb2))
                           | Some childRoot \<Rightarrow>
                               (case fuel of
                                  0 \<Rightarrow> None
                                | Suc fuel' \<Rightarrow>
                                    (case buildModulesDependencyGraph fuel' e childRoot
                                            childModules (depth + 1) maxDepth gb2 of
                                       None \<Rightarrow> None
                                     | Some (Inl a, gb3) \<Rightarrow> Some (Inl a, gb3)
                                     | Some (Inr children, gb3) \<Rightarrow>
                                         (let m2 = Module (Version m1) (ReplacedBy m1)
                                                     (License m1) children
                                          in continue m2
                                               (buildModulesDependencyGraph fuel e modRoot mods
                                                  depth maxDepth (cacheModule m2 gb3))))))))))"

text \<open>
  \<open>buildGraph\<close>: an error of the traversal is wrapped by \<open>fmt.Errorf\<close>; taking the
  address of \<open>modRoot.ModFile.Module.Mod\<close> panics when the manifest has no module
  directive.
\<close>

definition buildGraph ::
  "nat \<Rightarrow> env \<Rightarrow> ModRoot \<Rightarrow> int \<Rightarrow> graphBuilder \<Rightarrow> ((abort + Tree) \<times> graphBuilder) option" where
  "buildGraph fuel e modRoot maxDepth gb =
     (let requiredModules = loadModulesFromModFile modRoot
      in case buildModulesDependencyGraph fuel e modRoot requiredModules 0 maxDepth gb of
           None \<Rightarrow> None
         | Some (Inl (Err err), gb') \<Rightarrow>
             Some (Inl (Err (Errorf ''cannot build modules tree: '' err)), gb')
         | Some (Inl (Exit err), gb') \<Rightarrow> Some (Inl (Exit err), gb')
         | Some (Inl Panic, gb') \<Rightarrow> Some (Inl Panic, gb')
         | Some (Inr mods, gb') \<Rightarrow>
             (case ModuleMod (ModFile modRoot) of
                None \<Rightarrow> Some (Inl Panic, gb')
              | Some v \<Rightarrow> Some (Inr \<lparr>Root = Module v None None mods\<rparr>, gb')))"

section \<open>Notions used in the statements\<close>


text \<open>All nodes of the tree below a module, the module itself included.\<close>

fun nodes :: "Module \<Rightarrow> Module list" where
  "nodes (Module v r l ds) = Module v r l ds # concat (map nodes ds)"

text \<open>
  A list of required modules is found at the depth bound. \<open>foundAtBound e maxDepth fuel
  modRoot mods depth gb parent found\<close>: during the call of \<open>buildModulesDependencyGraph\<close>
  on \<open>mods\<close> at \<open>depth\<close>, the loop resolves the module \<open>parent\<close> at depth \<open>maxDepth - 1\<close>, and
  the content resolver returns for it a manifest with the required modules \<open>found\<close>, which
  the loop hands to the nested call at depth \<open>maxDepth\<close>. Rule \<open>here\<close>: the first module of
  the list is that parent. Rule \<open>below\<close>: the parent is resolved inside the nested call for
  the requirements of the first module. Rule \<open>later\<close>: the loop has handled the first module,
  which left the builder \<open>gb1\<close>, and the parent is resolved in the rest of the loop.
\<close>

inductive foundAtBound ::
  "env \<Rightarrow> int \<Rightarrow> nat \<Rightarrow> ModRoot \<Rightarrow> Module list \<Rightarrow> int \<Rightarrow> graphBuilder
     \<Rightarrow> Module \<Rightarrow> Module list \<Rightarrow> bool"
  for e :: env and maxDepth :: int where
  here:
    "depth + 1 = maxDepth \<Longrightarrow> getModuleFromCache gb m = None \<Longrightarrow>
     extractLicenseAndRequiredModules e modRoot m gb
       = (Inr (Some childRoot, license, childModules), gb1) \<Longrightarrow>
     licenseOf e m license gb1 = (Inr (licenseType, license'), gb2) \<Longrightarrow>
     foundAtBound e maxDepth (Suc fuel) modRoot (m # mods) depth gb m childModules"
| below:
    "depth \<noteq> maxDepth \<Longrightarrow> getModuleFromCache gb m = None \<Longrightarrow>
     extractLicenseAndRequiredModules e modRoot m gb
       = (Inr (Some childRoot, license, childModules), gb1) \<Longrightarrow>
     licenseOf e m license gb1 = (Inr (licenseType, license'), gb2) \<Longrightarrow>
     foundAtBound e maxDepth fuel childRoot childModules (depth + 1) gb2 parent found \<Longrightarrow>
     foundAtBound e maxDepth (Suc fuel) modRoot (m # mods) depth gb parent found"
| later:
    "buildModulesDependencyGraph fuel e modRoot [m] depth maxDepth gb = Some (Inr r, gb1) \<Longrightarrow>
     foundAtBound e maxDepth fuel modRoot mods depth gb1 parent found \<Longrightarrow>
     foundAtBound e maxDepth fuel modRoot (m # mods) depth gb parent found"

section \<open>A concrete world\<close>

text \<open>
  A small filesystem, registry, parser and classifier on which the builder is run.
  The root module \<open>example.com/app\<close> lives in \<open>/src/app\<close>.
\<close>

definition asciiLower :: "string \<Rightarrow> string" where
  "asciiLower s =
     map (\<lambda>c. if (65::nat) \<le> of_char c \<and> of_char c \<le> (90::nat)
               then char_of (of_char c + (32::nat)) else c) s"

text \<open>
  \<open>filepath.Dir\<close> and \<open>filepath.Join\<close> on the paths of this world: the directory of a
  path is the path without its last element, and joining cleans a leading \<open>../\<close> or
  \<open>./\<close> of the second path.
\<close>

definition dirname :: "string \<Rightarrow> string" where
  "dirname p = rev (tl (dropWhile (\<lambda>c. c \<noteq> CHR ''/'') (rev p)))"

definition joinPath :: "string \<Rightarrow> string \<Rightarrow> string" where
  "joinPath a b =
     (if a = [] then b
      else if take 3 b = ''../'' then dirname a @ ''/'' @ drop 3 b
      else if take 2 b = ''./'' then a @ ''/'' @ drop 2 b
      else a @ ''/'' @ b)"

definition mv :: "string \<Rightarrow> string \<Rightarrow> module_Version" where
  "mv p v = \<lparr>Path = p, Ver = v\<rparr>"

definition exReadDir :: "string \<Rightarrow> error + FileInfo list" where
  "exReadDir p =
     (if p = ''/src/lib'' then
        Inr [\<lparr>fileName = ''LICENSE'', IsDir = False\<rparr>, \<lparr>fileName = ''go.mod'', IsDir = False\<rparr>]
      else if p = ''/src/bad'' then
        Inr [\<lparr>fileName = ''LICENSE'', IsDir = False\<rparr>, \<lparr>fileName = ''go.mod'', IsDir = False\<rparr>]
      else if p = ''/src/bare'' then
        Inr [\<lparr>fileName = ''README.md'', IsDir = False\<rparr>]
      else if p = ''/src/kit'' \<or> p = ''/src/xa'' \<or> p = ''/src/xb'' then
        Inr [\<lparr>fileName = ''LICENSE'', IsDir = False\<rparr>, \<lparr>fileName = ''go.mod'', IsDir = False\<rparr>]
      else Inl (External ''no such file or directory''))"

definition exReadFile :: "string \<Rightarrow> bytes \<times> error option" where
  "exReadFile p =
     (if p = ''/src/lib/LICENSE'' then (''MIT License'', None)
      else if p = ''/src/lib/go.mod'' then (''module lib'', None)
      else if p = ''/src/bad/LICENSE'' then (''MIT License'', None)
      else if p = ''/src/bad/go.mod'' then (''<<<<<<< HEAD'', None)
      else if p = ''/src/kit/LICENSE'' \<or> p = ''/src/xa/LICENSE'' \<or> p = ''/src/xb/LICENSE'' then
        (''MIT License'', None)
      else if p = ''/src/kit/go.mod'' then (''module kit'', None)
      else if p = ''/src/xa/go.mod'' then (''module xa'', None)
      else if p = ''/src/xb/go.mod'' then (''module xb'', None)
      else ([], Some (External ''no such file or directory'')))"

definition exDownload :: "module_Version \<Rightarrow> error + bytes" where
  "exDownload v =
     (if v = mv ''example.com/a'' ''v1.0.0'' then Inr ''zip a''
      else if v = mv ''example.com/zed'' ''v2.0.0'' then Inr ''zip zed''
      else if v = mv ''example.com/yak'' ''v1.1.0'' then Inr ''zip yak''
      else if v = mv ''example.com/nolic'' ''v0.3.0'' then Inr ''zip nolic''
      else Inl (External ''404 Not Found''))"

definition exZip :: "bytes \<Rightarrow> error + zipFile list" where
  "exZip b =
     (if b = ''zip a'' then
        Inr [\<lparr>zipName = ''example.com/a@v1.0.0/LICENSE'', zipOpen = Inr (Inr ''MIT License'')\<rparr>,
             \<lparr>zipName = ''example.com/a@v1.0.0/go.mod'', zipOpen = Inr (Inr ''module a'')\<rparr>]
      else if b = ''zip zed'' then
        Inr [\<lparr>zipName = ''example.com/zed@v2.0.0/LICENSE.txt'', zipOpen = Inr (Inr ''MIT License'')\<rparr>]
      else if b = ''zip yak'' then
        Inr [\<lparr>zipName = ''example.com/yak@v1.1.0/COPYING'', zipOpen = Inr (Inr ''MIT License'')\<rparr>,
             \<lparr>zipName = ''v1.1.0/go.mod'', zipOpen = Inr (Inr ''<<<<<<< HEAD'')\<rparr>]
      else if b = ''zip nolic'' then
        Inr [\<lparr>zipName = ''example.com/nolic@v0.3.0/README.md'', zipOpen = Inr (Inr ''hello'')\<rparr>]
      else Inl (External ''zip: not a valid zip file''))"

definition exParse :: "bytes \<Rightarrow> error + modFile" where
  "exParse b =
     (if b = ''module lib'' then
        Inr \<lparr>ModuleMod = Some (mv ''example.com/lib'' []),
             Require = [mv ''example.com/zed'' ''v2.0.0'', mv ''example.com/a'' ''v1.0.0''],
             Replace = []\<rparr>
      else if b = ''module a'' then
        Inr \<lparr>ModuleMod = Some (mv ''example.com/a'' []),
             Require = [mv ''example.com/zed'' ''v2.0.0''],
             Replace = []\<rparr>
      else if b = ''module kit'' then
        Inr \<lparr>ModuleMod = Some (mv ''example.com/kit'' []),
             Require = [mv ''example.com/x'' ''v1.0.0''],
             Replace = [(mv ''example.com/x'' ''v1.0.0'', mv ''../xb'' [])]\<rparr>
      else if b = ''module xa'' then
        Inr \<lparr>ModuleMod = Some (mv ''example.com/x'' []),
             Require = [mv ''example.com/q'' ''v1.0.0'', mv ''example.com/p'' ''v1.0.0''],
             Replace = []\<rparr>
      else if b = ''module xb'' then
        Inr \<lparr>ModuleMod = Some (mv ''example.com/x'' []),
             Require = [mv ''example.com/p'' ''v1.0.0'', mv ''example.com/q'' ''v1.0.0''],
             Replace = []\<rparr>
      else Inl (External ''go.mod:1: unknown directive''))"

definition exDetect :: "bytes \<Rightarrow> error + string" where
  "exDetect b = (if b = ''MIT License'' then Inr ''MIT'' else Inl (External ''unknown license''))"

definition exEnv :: "bool \<Rightarrow> env" where
  "exEnv l =
     \<lparr>lenient = l, ReadDir = exReadDir, ReadFile = exReadFile,
      Join = joinPath, Dir = dirname,
      ToLower = asciiLower, Quote = (\<lambda>s. [CHR 0x22] @ s @ [CHR 0x22]),
      downloadModule = exDownload, zipNewReader = exZip,
      modfileParse = exParse, detectLicense = exDetect\<rparr>"

definition exRoot :: "module_Version list \<Rightarrow> (module_Version \<times> module_Version) list \<Rightarrow> ModRoot" where
  "exRoot reqs repl =
     \<lparr>ModFile = \<lparr>ModuleMod = Some (mv ''example.com/app'' []), Require = reqs, Replace = repl\<rparr>,
      RootPath = ''/src/app''\<rparr>"

section \<open>The cache key\<close>

lemma moduleID_eq: "moduleID m = Ver (Version m) @ ''@'' @ Path (Version m)"
  by (simp add: moduleID_def)

text \<open>
  Claim C1: the cache key of a module node is the canonical string \<open>path@version\<close> of its
  identity followed by the replacement detail, so that a replaced module and its
  un-replaced counterpart have different keys.

  The code computes the replacement detail and drops it, and writes the version before
  the path: the replaced \<open>example.com/a@v1.0.0\<close> and the un-replaced one both get the
  key \<open>v1.0.0@example.com/a\<close>, and a lookup of the un-replaced module after the
  replaced one was cached returns the replaced one. In a build, the module \<open>zed\<close> that
  the root manifest replaces by the directory \<open>../bare\<close> (which holds no license) is
  served from the cache entry of the un-replaced \<open>zed\<close> that \<open>lib\<close> requires, and gets the
  license of the downloaded archive; with the two requirements of the root in the other
  order the same strict build aborts.
\<close>

theorem moduleID_drops_replacement:
  "moduleID (Module (mv ''example.com/a'' ''v1.0.0'') (Some (mv ''../a'' [])) None [])
     = ''v1.0.0@example.com/a''
   \<and> moduleID (Module (mv ''example.com/a'' ''v1.0.0'') None None [])
     = ''v1.0.0@example.com/a''
   \<and> getModuleFromCache
         (cacheModule (Module (mv ''example.com/a'' ''v1.0.0'') (Some (mv ''../a'' [])) None [])
            newGraphBuilder)
         (Module (mv ''example.com/a'' ''v1.0.0'') None None [])
     = Some (Module (mv ''example.com/a'' ''v1.0.0'') (Some (mv ''../a'' [])) None [])
   \<and> map_option fst
       (buildGraph 2 (exEnv False)
          (exRoot [mv ''example.com/lib'' ''v0.1.0'', mv ''example.com/zed'' ''v2.0.0'']
                  [(mv ''example.com/lib'' ''v0.1.0'', mv ''../lib'' []),
                   (mv ''example.com/zed'' ''v2.0.0'', mv ''../bare'' [])])
          2 newGraphBuilder)
     = Some (Inr \<lparr>Root = Module (mv ''example.com/app'' []) None None
         [Module (mv ''example.com/lib'' ''v0.1.0'') (Some (mv ''../lib'' []))
            (Some \<lparr>Data = ''MIT License'', Name = ''MIT''\<rparr>)
            [Module (mv ''example.com/zed'' ''v2.0.0'') None
               (Some \<lparr>Data = ''MIT License'', Name = ''MIT''\<rparr>) [],
             Module (mv ''example.com/a'' ''v1.0.0'') None
               (Some \<lparr>Data = ''MIT License'', Name = ''MIT''\<rparr>) []],
          Module (mv ''example.com/zed'' ''v2.0.0'') (Some (mv ''../bare'' []))
            (Some \<lparr>Data = ''MIT License'', Name = ''MIT''\<rparr>) []]\<rparr>)
   \<and> map_option fst
       (buildGraph 2 (exEnv False)
          (exRoot [mv ''example.com/zed'' ''v2.0.0'', mv ''example.com/lib'' ''v0.1.0'']
                  [(mv ''example.com/lib'' ''v0.1.0'', mv ''../lib'' []),
                   (mv ''example.com/zed'' ''v2.0.0'', mv ''../bare'' [])])
          2 newGraphBuilder)
     = Some (Inl (Err (Errorf ''cannot build modules tree: '' (External ''unknown license''))))"
  by code_simp

section \<open>The traversal\<close>

lemma continue_eq_Some:
  "continue m x = Some r \<longleftrightarrow>
     (\<exists>a gb. x = Some (Inl a, gb) \<and> r = (Inl a, gb)) \<or>
     (\<exists>ms gb. x = Some (Inr ms, gb) \<and> r = (Inr (m # ms), gb))"
  by (cases "(m, x)" rule: continue.cases) auto

lemma continue_eq_None: "continue m x = None \<longleftrightarrow> x = None"
  by (cases "(m, x)" rule: continue.cases) auto

lemma build_at_bound:
  "buildModulesDependencyGraph fuel e modRoot mods maxDepth maxDepth gb = Some (Inr mods, gb)"
  by (induction mods) simp_all

lemma build_Cons_Inr:
  assumes "buildModulesDependencyGraph fuel e modRoot (m # mods) depth maxDepth gb
             = Some (Inr res, gb')"
  obtains
    (bound) "depth = maxDepth" "res = m # mods" "gb' = gb"
  | (cached) c ms where "depth \<noteq> maxDepth" "getModuleFromCache gb m = Some c"
      "res = Module (Version m) (ReplacedBy m) (License c) (Dependencies c) # ms"
      "buildModulesDependencyGraph fuel e modRoot mods depth maxDepth gb = Some (Inr ms, gb')"
  | (leaf) license childModules gb1 licenseType license' gb2 ms where
      "depth \<noteq> maxDepth" "getModuleFromCache gb m = None"
      "extractLicenseAndRequiredModules e modRoot m gb = (Inr (None, license, childModules), gb1)"
      "licenseOf e m license gb1 = (Inr (licenseType, license'), gb2)"
      "res = Module (Version m) (ReplacedBy m) (Some \<lparr>Data = license', Name = licenseType\<rparr>)
               (Dependencies m) # ms"
      "buildModulesDependencyGraph fuel e modRoot mods depth maxDepth
         (cacheModule (Module (Version m) (ReplacedBy m)
            (Some \<lparr>Data = license', Name = licenseType\<rparr>) (Dependencies m)) gb2)
         = Some (Inr ms, gb')"
  | (expanded) childRoot license childModules gb1 licenseType license' gb2 fuel' children gb3 ms
    where
      "depth \<noteq> maxDepth" "getModuleFromCache gb m = None"
      "extractLicenseAndRequiredModules e modRoot m gb
         = (Inr (Some childRoot, license, childModules), gb1)"
      "licenseOf e m license gb1 = (Inr (licenseType, license'), gb2)"
      "fuel = Suc fuel'"
      "buildModulesDependencyGraph fuel' e childRoot childModules (depth + 1) maxDepth gb2
         = Some (Inr children, gb3)"
      "res = Module (Version m) (ReplacedBy m) (Some \<lparr>Data = license', Name = licenseType\<rparr>)
               children # ms"
      "buildModulesDependencyGraph fuel e modRoot mods depth maxDepth
         (cacheModule (Module (Version m) (ReplacedBy m)
            (Some \<lparr>Data = license', Name = licenseType\<rparr>) children) gb3)
         = Some (Inr ms, gb')"
proof (cases "depth = maxDepth")
  case True
  with assms have "res = m # mods \<and> gb' = gb" by (simp add: build_at_bound)
  with True show ?thesis using bound by blast
next
  case False
  show ?thesis
  proof (cases "getModuleFromCache gb m")
    case (Some c)
    with False assms show ?thesis using cached[of c]
      by (auto simp: continue_eq_Some)
  next
    case None
    obtain x gb1 where ex: "extractLicenseAndRequiredModules e modRoot m gb = (x, gb1)"
      by (cases "extractLicenseAndRequiredModules e modRoot m gb")
    show ?thesis
    proof (cases x)
      case (Inl a)
      with False None ex assms show ?thesis by simp
    next
      case (Inr t)
      obtain childModRoot license childModules where t: "t = (childModRoot, license, childModules)"
        by (cases t)
      obtain y gb2 where lo: "licenseOf e m license gb1 = (y, gb2)"
        by (cases "licenseOf e m license gb1")
      show ?thesis
      proof (cases y)
        case (Inl a)
        with False None ex Inr t lo assms show ?thesis by simp
      next
        case yr: (Inr u)
        obtain licenseType license' where u: "u = (licenseType, license')" by (cases u)
        show ?thesis
        proof (cases childModRoot)
          case None2: None
          with False None ex Inr t lo yr u assms show ?thesis
            using leaf[of license childModules gb1 licenseType license' gb2]
            by (auto simp: continue_eq_Some Let_def)
        next
          case (Some childRoot)
          with False None ex Inr t lo yr u assms show ?thesis
            using expanded[of childRoot license childModules gb1 licenseType license' gb2]
            by (auto simp: continue_eq_Some Let_def split: nat.splits option.splits sum.splits)
        qed
      qed
    qed
  qed
qed

lemma continue_returns:
  "(\<exists>a gb. continue m x = Some (a, gb)) \<longleftrightarrow> (\<exists>a gb. x = Some (a, gb))"
  by (cases "(m, x)" rule: continue.cases) auto

lemma build_fuel_enough:
  "depth \<le> maxDepth \<Longrightarrow> nat (maxDepth - depth) \<le> fuel \<Longrightarrow>
     \<exists>r. buildModulesDependencyGraph fuel e modRoot mods depth maxDepth gb = Some r"
proof (induction fuel arbitrary: modRoot mods depth gb)
  case 0
  then have "depth = maxDepth" by simp
  then show ?case by (simp add: build_at_bound)
next
  case (Suc k)
  show ?case
  proof (induction mods arbitrary: gb)
    case Nil
    show ?case by simp
  next
    case (Cons m mods)
    show ?case
    proof (cases "depth = maxDepth")
      case True
      then show ?thesis by (simp add: build_at_bound)
    next
      case False
      show ?thesis
      proof (cases "getModuleFromCache gb m")
        case (Some c)
        with False Cons.IH[of gb] show ?thesis by (simp add: continue_returns)
      next
        case None
        obtain x gb1 where ex: "extractLicenseAndRequiredModules e modRoot m gb = (x, gb1)"
          by (cases "extractLicenseAndRequiredModules e modRoot m gb")
        show ?thesis
        proof (cases x)
          case (Inl a)
          with False None ex show ?thesis by simp
        next
          case (Inr t)
          obtain childModRoot license childModules
            where t: "t = (childModRoot, license, childModules)"
            by (cases t)
          obtain y gb2 where lo: "licenseOf e m license gb1 = (y, gb2)"
            by (cases "licenseOf e m license gb1")
          show ?thesis
          proof (cases y)
            case (Inl a)
            with False None ex Inr t lo show ?thesis by simp
          next
            case yr: (Inr u)
            obtain licenseType license' where u: "u = (licenseType, license')" by (cases u)
            show ?thesis
            proof (cases childModRoot)
              case None2: None
              with False None ex Inr t lo yr u
                Cons.IH[of "cacheModule (Module (Version m) (ReplacedBy m)
                   (Some \<lparr>Data = license', Name = licenseType\<rparr>) (Dependencies m)) gb2"]
              show ?thesis by (simp add: continue_returns Let_def)
            next
              case (Some childRoot)
              from False Suc.prems have "depth + 1 \<le> maxDepth"
                and "nat (maxDepth - (depth + 1)) \<le> k" by simp_all
              from Suc.IH[OF this, of childRoot childModules gb2]
              obtain z gb3 where
                inner: "buildModulesDependencyGraph k e childRoot childModules (depth + 1)
                          maxDepth gb2 = Some (z, gb3)"
                by auto
              show ?thesis
              proof (cases z)
                case (Inl a)
                with False None ex Inr t lo yr u Some inner show ?thesis by (simp add: Let_def)
              next
                case zr: (Inr children)
                with False None ex Inr t lo yr u Some inner
                  Cons.IH[of "cacheModule (Module (Version m) (ReplacedBy m)
                     (Some \<lparr>Data = license', Name = licenseType\<rparr>) children) gb3"]
                show ?thesis by (simp add: continue_returns Let_def)
              qed
            qed
          qed
        qed
      qed
    qed
  qed
qed

text \<open>More fuel does not change what a call returns.\<close>

lemma continue_mono:
  "continue m x = Some r \<Longrightarrow> (\<And>y. x = Some y \<Longrightarrow> x' = Some y) \<Longrightarrow> continue m x' = Some r"
  by (cases x) auto

lemma build_fuel_mono:
  "buildModulesDependencyGraph fuel e modRoot mods depth maxDepth gb = Some r \<Longrightarrow>
     fuel \<le> fuel' \<Longrightarrow>
     buildModulesDependencyGraph fuel' e modRoot mods depth maxDepth gb = Some r"
proof (induction fuel arbitrary: fuel' modRoot mods depth gb r rule: less_induct)
  case (less fuel)
  show ?case using less.prems
  proof (induction mods arbitrary: gb r)
    case Nil
    then show ?case by simp
  next
    case (Cons m mods)
    note rest = Cons.IH[OF _ Cons.prems(2)]
    show ?case
    proof (cases "depth = maxDepth")
      case True
      with Cons.prems show ?thesis by (simp add: build_at_bound)
    next
      case False
      show ?thesis
      proof (cases "getModuleFromCache gb m")
        case (Some c)
        with False Cons.prems(1) rest[of gb] show ?thesis
          by (auto elim: continue_mono)
      next
        case None
        obtain x gb1 where ex: "extractLicenseAndRequiredModules e modRoot m gb = (x, gb1)"
          by (cases "extractLicenseAndRequiredModules e modRoot m gb")
        show ?thesis
        proof (cases x)
          case (Inl a)
          with False None ex Cons.prems(1) show ?thesis by simp
        next
          case (Inr t)
          obtain childModRoot license childModules
            where t: "t = (childModRoot, license, childModules)"
            by (cases t)
          obtain y gb2 where lo: "licenseOf e m license gb1 = (y, gb2)"
            by (cases "licenseOf e m license gb1")
          show ?thesis
          proof (cases y)
            case (Inl a)
            with False None ex Inr t lo Cons.prems(1) show ?thesis by simp
          next
            case yr: (Inr u)
            obtain licenseType license' where u: "u = (licenseType, license')" by (cases u)
            show ?thesis
            proof (cases childModRoot)
              case None2: None
              with False None ex Inr t lo yr u Cons.prems(1)
                rest[of "cacheModule (Module (Version m) (ReplacedBy m)
                   (Some \<lparr>Data = license', Name = licenseType\<rparr>) (Dependencies m)) gb2"]
              show ?thesis by (auto simp: Let_def elim: continue_mono)
            next
              case (Some childRoot)
              with False None ex Inr t lo yr u Cons.prems(1)
              obtain k where k: "fuel = Suc k" by (cases fuel) (simp_all add: Let_def)
              with Cons.prems(2) obtain k' where k': "fuel' = Suc k'" "k \<le> k'"
                by (cases fuel') simp_all
              from Some False None ex Inr t lo yr u Cons.prems(1) k
              obtain z gb3 where
                inner: "buildModulesDependencyGraph k e childRoot childModules (depth + 1)
                          maxDepth gb2 = Some (z, gb3)"
                by (auto simp: Let_def split: option.splits)
              have "k < fuel" using k by simp
              from less.IH[OF this inner k'(2)]
              have inner': "buildModulesDependencyGraph k' e childRoot childModules (depth + 1)
                              maxDepth gb2 = Some (z, gb3)" .
              show ?thesis
              proof (cases z)
                case (Inl a)
                with False None ex Inr t lo yr u Some inner inner' k k' Cons.prems(1)
                show ?thesis by (auto simp: Let_def)
              next
                case zr: (Inr children)
                with False None ex Inr t lo yr u Some inner inner' k k' Cons.prems(1)
                  rest[of "cacheModule (Module (Version m) (ReplacedBy m)
                     (Some \<lparr>Data = license', Name = licenseType\<rparr>) children) gb3"]
                show ?thesis by (auto simp: Let_def elim: continue_mono)
              qed
            qed
          qed
        qed
      qed
    qed
  qed
qed

lemma buildGraph_fuel_mono:
  "buildGraph fuel e modRoot maxDepth gb = Some r \<Longrightarrow> fuel \<le> fuel' \<Longrightarrow>
     buildGraph fuel' e modRoot maxDepth gb = Some r"
  using build_fuel_mono[of fuel e modRoot "loadModulesFromModFile modRoot" 0 maxDepth gb _ fuel']
  by (auto simp: buildGraph_def Let_def split: option.splits)

section \<open>Steps of the loop\<close>

lemma build_resolver_aborts:
  assumes "depth \<noteq> maxDepth" and "getModuleFromCache gb m = None"
    and "extractLicenseAndRequiredModules e modRoot m gb = (Inl a, gb1)"
  shows "buildModulesDependencyGraph fuel e modRoot (m # mods) depth maxDepth gb
           = Some (Inl a, gb1)"
  using assms by simp


lemma build_leaf:
  assumes "depth \<noteq> maxDepth" and "getModuleFromCache gb m = None"
    and "extractLicenseAndRequiredModules e modRoot m gb = (Inr (None, license, cms), gb1)"
    and "licenseOf e m license gb1 = (Inr (licenseType, license'), gb2)"
  shows "buildModulesDependencyGraph fuel e modRoot (m # mods) depth maxDepth gb
           = continue
               (Module (Version m) (ReplacedBy m)
                  (Some \<lparr>Data = license', Name = licenseType\<rparr>) (Dependencies m))
               (buildModulesDependencyGraph fuel e modRoot mods depth maxDepth
                  (cacheModule
                     (Module (Version m) (ReplacedBy m)
                        (Some \<lparr>Data = license', Name = licenseType\<rparr>) (Dependencies m))
                     gb2))"
  using assms by (simp add: Let_def)

lemma licenseOf_lenient_empty:
  "lenient e \<Longrightarrow>
     licenseOf e m [] gb
       = (Inr (''Unknown'', unknownLicenseText e (Version m)),
          warned (NoLicenseFound (Version m)) gb)"
  by (simp add: licenseOf_def)


section \<open>The content resolver\<close>

lemma extract_unreadable_dir:
  assumes "ReplacedBy m = Some r" and "ReadDir e (Join e (RootPath modRoot) (Path r)) = Inl err"
  shows "extractLicenseAndRequiredModules e modRoot m gb
           = (Inl (Exit err), called (CallReadDir (Join e (RootPath modRoot) (Path r))) gb)"
  using assms by (simp add: extractLicenseAndRequiredModules_def Let_def)

lemma extract_download_fails:
  assumes "ReplacedBy m = None" and "downloadModule e (Version m) = Inl err"
  shows "extractLicenseAndRequiredModules e modRoot m gb
           = (if lenient e
              then (Inr (None, [], []),
                    warned (GotDownloadError err) (called (CallDownload (Version m)) gb))
              else (Inl (Err err), called (CallDownload (Version m)) gb))"
  using assms by (simp add: extractLicenseAndRequiredModules_def Let_def)

lemma extract_remote:
  assumes "ReplacedBy m = None" and "downloadModule e (Version m) = Inr moduleZip"
  shows "extractLicenseAndRequiredModules e modRoot m gb
           = (case (case extractLicense e (versionString (Version m)) moduleZip of
                      Inl err \<Rightarrow>
                        (if \<not> (err = ErrorLicenseNotFound \<and> lenient e) then Inl err else Inr [])
                    | Inr license \<Rightarrow> Inr license) of
                Inl err \<Rightarrow> (Inl (Err err), called (CallDownload (Version m)) gb)
              | Inr license \<Rightarrow>
                  (case getRequiredModules e (Ver (Version m)) moduleZip of
                     Inl err \<Rightarrow>
                       (if err \<noteq> ErrorGoModFileNotFound
                        then (Inl (Err err), called (CallDownload (Version m)) gb)
                        else (Inr (None, license, []), called (CallDownload (Version m)) gb))
                   | Inr (childModRoot, requiredModules) \<Rightarrow>
                       (Inr (Some childModRoot, license, requiredModules),
                        called (CallDownload (Version m)) gb)))"
  using assms by (simp add: extractLicenseAndRequiredModules_def Let_def)

lemma manifest_file_effects:
  "getRequiredModulesFromFile e p gb = (x, gb') \<Longrightarrow>
     gb' = called (CallReadFile p) gb
     \<and> (case x of
          Inl err \<Rightarrow> True
        | Inr (root, cms) \<Rightarrow>
            snd (ReadFile e p) = None
            \<and> modfileParse e (fst (ReadFile e p)) = Inr (ModFile root)
            \<and> RootPath root = Dir e p
            \<and> cms = loadModulesFromModFile root)"
  by (auto simp: getRequiredModulesFromFile_def Let_def split: prod.splits option.splits sum.splits)

lemma bytes_manifest:
  "getRequiredModulesFromBytes e b = Inr (root, cms) \<Longrightarrow>
     cms = loadModulesFromModFile root \<and> modfileParse e b = Inr (ModFile root)"
  by (auto simp: getRequiredModulesFromBytes_def Let_def split: sum.splits)

lemma archive_manifest_files:
  "getRequiredModulesFiles e name files = Inr (root, cms) \<Longrightarrow>
     cms = loadModulesFromModFile root \<and> (\<exists>b. modfileParse e b = Inr (ModFile root))"
  by (induction e name files rule: getRequiredModulesFiles.induct)
     (auto simp: Let_def split: if_splits sum.splits dest: bytes_manifest)

lemma archive_manifest:
  "getRequiredModules e name zipfile = Inr (root, cms) \<Longrightarrow>
     cms = loadModulesFromModFile root \<and> (\<exists>b. modfileParse e b = Inr (ModFile root))"
  by (auto simp: getRequiredModules_def split: sum.splits dest: archive_manifest_files)

lemma extract_manifest:
  assumes "extractLicenseAndRequiredModules e modRoot m gb = (Inr (Some root, license, cms), gb1)"
  shows "cms = loadModulesFromModFile root \<and> (\<exists>b. modfileParse e b = Inr (ModFile root))"
proof (cases "ReplacedBy m")
  case None
  with assms show ?thesis
    by (auto simp: extractLicenseAndRequiredModules_def Let_def
             split: sum.splits if_splits prod.splits dest: archive_manifest)
next
  case (Some r)
  let ?p = "Join e (RootPath modRoot) (Path r)"
  show ?thesis
  proof (cases "ReadDir e ?p")
    case (Inl err)
    with Some assms show ?thesis
      by (simp add: extractLicenseAndRequiredModules_def Let_def)
  next
    case (Inr files)
    obtain acc gb2 where
      sc: "scanLocalFiles e ?p files ([], []) (called (CallReadDir ?p) gb) = (acc, gb2)"
      by (metis surj_pair)
    obtain y gb3 where mf: "getRequiredModulesFromFile e (snd acc) gb2 = (y, gb3)"
      by (metis surj_pair)
    from Some Inr sc mf assms have "y = Inr (root, cms)"
      by (auto simp: extractLicenseAndRequiredModules_def Let_def
               split: sum.splits prod.splits)
    with manifest_file_effects[OF mf] show ?thesis by auto
  qed
qed

section \<open>The depth bound\<close>

lemma load_bare:
  "m \<in> set (loadModulesFromModFile r) \<Longrightarrow> License m = None \<and> Dependencies m = []"
  by (auto simp: loadModulesFromModFile_def Let_def)

lemma nodes_self: "n \<in> set (nodes n)"
  by (cases n) simp

lemma nodes_child: "d \<in> set (Dependencies n) \<Longrightarrow> x \<in> set (nodes d) \<Longrightarrow> x \<in> set (nodes n)"
  by (cases n) auto

text \<open>
  The loop handles the first module, and then the others from the builder the first one
  left: a successful call on \<open>m # mods\<close> is a successful call on \<open>[m]\<close> followed by one on
  \<open>mods\<close>.
\<close>

lemma build_head_then_rest:
  assumes "buildModulesDependencyGraph fuel e modRoot (m # mods) depth maxDepth gb
             = Some (Inr res, gb')"
  shows "\<exists>h t g. buildModulesDependencyGraph fuel e modRoot [m] depth maxDepth gb
                   = Some (Inr [h], g)
               \<and> buildModulesDependencyGraph fuel e modRoot mods depth maxDepth g
                   = Some (Inr t, gb')
               \<and> res = h # t"
  using assms
proof (cases rule: build_Cons_Inr)
  case bound
  then show ?thesis by (simp add: build_at_bound)
next
  case (cached c ms)
  then show ?thesis by simp
next
  case (leaf license childModules gb1 licenseType license' gb2 ms)
  then show ?thesis by (simp add: Let_def)
next
  case (expanded childRoot license childModules gb1 licenseType license' gb2 fuel' children gb3 ms)
  then show ?thesis by (simp add: Let_def)
qed

text \<open>
  A list found at the bound is, in every successful result of the call, the list of
  children of a node for its parent: the nested call at the bound returns it unchanged,
  the loop assigns it to the parent, and the enclosing loops keep the parent.
\<close>

lemma found_in_result:
  assumes "foundAtBound e maxDepth fuel modRoot mods depth gb parent found"
    and "buildModulesDependencyGraph fuel e modRoot mods depth maxDepth gb = Some (Inr res, gb')"
  shows "\<exists>r \<in> set res. \<exists>n \<in> set (nodes r).
           Version n = Version parent \<and> ReplacedBy n = ReplacedBy parent
           \<and> Dependencies n = found"
  using assms
proof (induction arbitrary: res gb' rule: foundAtBound.induct)
  case (here depth gb m modRoot childRoot license childModules gb1 licenseType license' gb2
          fuel mods)
  from here.prems show ?case
  proof (cases rule: build_Cons_Inr)
    case bound
    with here.hyps show ?thesis by simp
  next
    case (cached c ms)
    with here.hyps show ?thesis by simp
  next
    case (leaf license childModules gb1 licenseType license' gb2 ms)
    with here.hyps show ?thesis by simp
  next
    case (expanded childRoot' lic cms g1 lt l' g2 fuel' children gb3 ms)
    with here.hyps have "children = childModules"
      by (simp add: build_at_bound)
    with expanded(7) show ?thesis by (auto intro: nodes_self)
  qed
next
  case (below depth gb m modRoot childRoot license childModules gb1 licenseType license' gb2
          fuel parent found mods)
  from below.prems show ?case
  proof (cases rule: build_Cons_Inr)
    case bound
    with below.hyps show ?thesis by simp
  next
    case (cached c ms)
    with below.hyps show ?thesis by simp
  next
    case (leaf license childModules gb1 licenseType license' gb2 ms)
    with below.hyps show ?thesis by simp
  next
    case (expanded childRoot' lic cms g1 lt l' g2 fuel' children gb3 ms)
    with below.hyps have
      "buildModulesDependencyGraph fuel e childRoot childModules (depth + 1) maxDepth gb2
         = Some (Inr children, gb3)"
      by simp
    from below.IH[OF this] obtain r n where
      "r \<in> set children" "n \<in> set (nodes r)"
      "Version n = Version parent \<and> ReplacedBy n = ReplacedBy parent \<and> Dependencies n = found"
      by blast
    with expanded(7) show ?thesis by auto
  qed
next
  case (later fuel modRoot m depth gb r gb1 mods parent found)
  from build_head_then_rest[OF later.prems] later.hyps(1) obtain h t where
    "buildModulesDependencyGraph fuel e modRoot mods depth maxDepth gb1 = Some (Inr t, gb')"
    "res = h # t"
    by auto
  with later.IH[of t gb'] show ?case by auto
qed

lemma found_is_loaded:
  "foundAtBound e maxDepth fuel modRoot mods depth gb parent found \<Longrightarrow>
     \<exists>root. found = loadModulesFromModFile root"
  by (induction rule: foundAtBound.induct) (auto dest: extract_manifest)

text \<open>
  Claim C2, as amended: a required module discovered at depth exactly \<open>maxDepth\<close> is in
  the resulting graph as a leaf node, and nothing is resolved for it: it has no children
  and no license.

  With the bound 0 the requirements of the root manifest are at the bound: the build
  returns them, as loaded from the manifest, as the children of the root, and leaves the
  builder as it was (first conjunct). With any bound, for every list of required modules
  found at the bound during the build and every graph the build returns, a node of the
  graph for the parent has exactly that list as its children, each module of the list
  without license and without children (second conjunct). The modules loaded from a
  manifest have no license and no children (third conjunct), and a call of the traversal
  at the bound returns its modules unchanged and leaves the builder as it was: no
  collaborator is called and nothing is cached (fourth conjunct).
\<close>

theorem nodes_at_depth_bound_stay_bare:
  "buildGraph fuel e modRoot 0 gb
     = (case ModuleMod (ModFile modRoot) of
          None \<Rightarrow> Some (Inl Panic, gb)
        | Some v \<Rightarrow>
            Some (Inr \<lparr>Root = Module v None None (loadModulesFromModFile modRoot)\<rparr>, gb))
   \<and> (foundAtBound e maxDepth fuel modRoot (loadModulesFromModFile modRoot) 0 gb parent found
        \<and> buildGraph fuel e modRoot maxDepth gb = Some (Inr t, gb')
      \<longrightarrow> (\<exists>n \<in> set (nodes (Root t)).
             Version n = Version parent \<and> ReplacedBy n = ReplacedBy parent
             \<and> Dependencies n = found)
          \<and> (\<forall>c \<in> set found. License c = None \<and> Dependencies c = []))
   \<and> (\<forall>c \<in> set (loadModulesFromModFile modRoot). License c = None \<and> Dependencies c = [])
   \<and> buildModulesDependencyGraph fuel e modRoot mods maxDepth maxDepth gb = Some (Inr mods, gb)"
proof (intro conjI impI)
  show "buildGraph fuel e modRoot 0 gb
     = (case ModuleMod (ModFile modRoot) of
          None \<Rightarrow> Some (Inl Panic, gb)
        | Some v \<Rightarrow>
            Some (Inr \<lparr>Root = Module v None None (loadModulesFromModFile modRoot)\<rparr>, gb))"
    by (simp add: buildGraph_def build_at_bound)
next
  assume a: "foundAtBound e maxDepth fuel modRoot (loadModulesFromModFile modRoot) 0 gb
               parent found
             \<and> buildGraph fuel e modRoot maxDepth gb = Some (Inr t, gb')"
  then obtain res where
    run: "buildModulesDependencyGraph fuel e modRoot (loadModulesFromModFile modRoot) 0
            maxDepth gb = Some (Inr res, gb')"
    and t: "Dependencies (Root t) = res"
    by (auto simp: buildGraph_def Let_def split: option.splits sum.splits abort.splits)
  from found_in_result[OF conjunct1[OF a] run] t
  show "\<exists>n \<in> set (nodes (Root t)).
          Version n = Version parent \<and> ReplacedBy n = ReplacedBy parent
          \<and> Dependencies n = found"
    by (metis nodes_child)
  from found_is_loaded[OF conjunct1[OF a]]
  show "\<forall>c \<in> set found. License c = None \<and> Dependencies c = []"
    using load_bare by blast
next
  show "\<forall>c \<in> set (loadModulesFromModFile modRoot). License c = None \<and> Dependencies c = []"
    using load_bare by blast
next
  show "buildModulesDependencyGraph fuel e modRoot mods maxDepth maxDepth gb
          = Some (Inr mods, gb)"
    by (rule build_at_bound)
qed

theorem nodes_at_depth_bound_stay_bare_witness:
  "buildGraph (Suc 0) (exEnv False)
     (exRoot [mv ''example.com/lib'' ''v0.1.0'']
             [(mv ''example.com/lib'' ''v0.1.0'', mv ''../lib'' [])])
     0 newGraphBuilder
   = Some (Inr \<lparr>Root = Module (mv ''example.com/app'' []) None None
        [Module (mv ''example.com/lib'' ''v0.1.0'') (Some (mv ''../lib'' [])) None []]\<rparr>,
      newGraphBuilder)
   \<and> (\<exists>n \<in> set (nodes (Module (mv ''example.com/app'' []) None None
        [Module (mv ''example.com/lib'' ''v0.1.0'') (Some (mv ''../lib'' []))
           (Some \<lparr>Data = ''MIT License'', Name = ''MIT''\<rparr>)
           [Module (mv ''example.com/zed'' ''v2.0.0'') None None [],
            Module (mv ''example.com/a'' ''v1.0.0'') None None []]])).
        Version n = mv ''example.com/lib'' ''v0.1.0''
        \<and> ReplacedBy n = Some (mv ''../lib'' [])
        \<and> Dependencies n = [Module (mv ''example.com/zed'' ''v2.0.0'') None None [],
                             Module (mv ''example.com/a'' ''v1.0.0'') None None []])
   \<and> (\<exists>n \<in> set (nodes (Module (mv ''example.com/app'' []) None None
        [Module (mv ''example.com/kit'' ''v1.0.0'') (Some (mv ''../kit'' []))
           (Some \<lparr>Data = ''MIT License'', Name = ''MIT''\<rparr>)
           [Module (mv ''example.com/x'' ''v1.0.0'') (Some (mv ''../xb'' []))
              (Some \<lparr>Data = ''MIT License'', Name = ''MIT''\<rparr>)
              [Module (mv ''example.com/p'' ''v1.0.0'') None None [],
               Module (mv ''example.com/q'' ''v1.0.0'') None None []]]])).
        Version n = mv ''example.com/x'' ''v1.0.0''
        \<and> ReplacedBy n = Some (mv ''../xb'' [])
        \<and> Dependencies n = [Module (mv ''example.com/p'' ''v1.0.0'') None None [],
                             Module (mv ''example.com/q'' ''v1.0.0'') None None []])"
proof -
  have first:
    "buildGraph (Suc 0) (exEnv False)
     (exRoot [mv ''example.com/lib'' ''v0.1.0'']
             [(mv ''example.com/lib'' ''v0.1.0'', mv ''../lib'' [])])
     0 newGraphBuilder
   = Some (Inr \<lparr>Root = Module (mv ''example.com/app'' []) None None
        [Module (mv ''example.com/lib'' ''v0.1.0'') (Some (mv ''../lib'' [])) None []]\<rparr>,
      newGraphBuilder)
   \<and> (\<exists>n \<in> set (nodes (Module (mv ''example.com/app'' []) None None
        [Module (mv ''example.com/lib'' ''v0.1.0'') (Some (mv ''../lib'' []))
           (Some \<lparr>Data = ''MIT License'', Name = ''MIT''\<rparr>)
           [Module (mv ''example.com/zed'' ''v2.0.0'') None None [],
            Module (mv ''example.com/a'' ''v1.0.0'') None None []]])).
        Version n = mv ''example.com/lib'' ''v0.1.0''
        \<and> ReplacedBy n = Some (mv ''../lib'' [])
        \<and> Dependencies n = [Module (mv ''example.com/zed'' ''v2.0.0'') None None [],
                             Module (mv ''example.com/a'' ''v1.0.0'') None None []])"
  proof -
    let ?R = "exRoot [mv ''example.com/lib'' ''v0.1.0'']
                     [(mv ''example.com/lib'' ''v0.1.0'', mv ''../lib'' [])]"
    let ?lib = "Module (mv ''example.com/lib'' ''v0.1.0'') (Some (mv ''../lib'' [])) None []"
    let ?found = "[Module (mv ''example.com/zed'' ''v2.0.0'') None None [],
                   Module (mv ''example.com/a'' ''v1.0.0'') None None []]"
    let ?childRoot = "\<lparr>ModFile = \<lparr>ModuleMod = Some (mv ''example.com/lib'' []),
                        Require = [mv ''example.com/zed'' ''v2.0.0'', mv ''example.com/a'' ''v1.0.0''],
                        Replace = []\<rparr>, RootPath = ''/src/lib''\<rparr>"
    let ?t = "\<lparr>Root = Module (mv ''example.com/app'' []) None None
          [Module (mv ''example.com/lib'' ''v0.1.0'') (Some (mv ''../lib'' []))
             (Some \<lparr>Data = ''MIT License'', Name = ''MIT''\<rparr>) ?found]\<rparr>"
    let ?x = "extractLicenseAndRequiredModules (exEnv False) ?R ?lib newGraphBuilder"
    have ld: "loadModulesFromModFile ?R = [?lib]" by code_simp
    have d: "(0::int) + 1 = 1" by simp
    have c: "getModuleFromCache newGraphBuilder ?lib = None" by code_simp
    have "fst ?x = Inr (Some ?childRoot, ''MIT License'', ?found)" by code_simp
    then have x: "?x = (Inr (Some ?childRoot, ''MIT License'', ?found), snd ?x)"
      by (metis prod.collapse)
    have "fst (licenseOf (exEnv False) ?lib ''MIT License'' (snd ?x))
            = Inr (''MIT'', ''MIT License'')"
      by (simp add: licenseOf_def exEnv_def exDetect_def)
    then have l: "licenseOf (exEnv False) ?lib ''MIT License'' (snd ?x)
                    = (Inr (''MIT'', ''MIT License''),
                       snd (licenseOf (exEnv False) ?lib ''MIT License'' (snd ?x)))"
      by (metis prod.collapse)
    have f: "foundAtBound (exEnv False) 1 (Suc 0) ?R (loadModulesFromModFile ?R) 0
               newGraphBuilder ?lib ?found"
      unfolding ld by (rule foundAtBound.here[OF d c x l])
    have "map_option fst (buildGraph (Suc 0) (exEnv False) ?R 1 newGraphBuilder)
            = Some (Inr ?t)"
      by code_simp
    then obtain gb' where
      run: "buildGraph (Suc 0) (exEnv False) ?R 1 newGraphBuilder = Some (Inr ?t, gb')"
      by auto
    have m: "ModuleMod (ModFile ?R) = Some (mv ''example.com/app'' [])"
      by (simp add: exRoot_def)
    from nodes_at_depth_bound_stay_bare
           [of "Suc 0" "exEnv False" ?R newGraphBuilder 1 ?lib ?found ?t gb' "[]"]
         f run ld m
    show ?thesis by simp
  qed
  have second:
    "(\<exists>n \<in> set (nodes (Module (mv ''example.com/app'' []) None None
        [Module (mv ''example.com/kit'' ''v1.0.0'') (Some (mv ''../kit'' []))
           (Some \<lparr>Data = ''MIT License'', Name = ''MIT''\<rparr>)
           [Module (mv ''example.com/x'' ''v1.0.0'') (Some (mv ''../xb'' []))
              (Some \<lparr>Data = ''MIT License'', Name = ''MIT''\<rparr>)
              [Module (mv ''example.com/p'' ''v1.0.0'') None None [],
               Module (mv ''example.com/q'' ''v1.0.0'') None None []]]])).
        Version n = mv ''example.com/x'' ''v1.0.0''
        \<and> ReplacedBy n = Some (mv ''../xb'' [])
        \<and> Dependencies n = [Module (mv ''example.com/p'' ''v1.0.0'') None None [],
                             Module (mv ''example.com/q'' ''v1.0.0'') None None []])"
  proof -
    let ?K = "exRoot [mv ''example.com/kit'' ''v1.0.0'']
                     [(mv ''example.com/kit'' ''v1.0.0'', mv ''../kit'' [])]"
    let ?kit = "Module (mv ''example.com/kit'' ''v1.0.0'') (Some (mv ''../kit'' [])) None []"
    let ?x = "Module (mv ''example.com/x'' ''v1.0.0'') (Some (mv ''../xb'' [])) None []"
    let ?pq = "[Module (mv ''example.com/p'' ''v1.0.0'') None None [],
                Module (mv ''example.com/q'' ''v1.0.0'') None None []]"
    let ?kitRoot = "\<lparr>ModFile = \<lparr>ModuleMod = Some (mv ''example.com/kit'' []),
                      Require = [mv ''example.com/x'' ''v1.0.0''],
                      Replace = [(mv ''example.com/x'' ''v1.0.0'', mv ''../xb'' [])]\<rparr>,
                    RootPath = ''/src/kit''\<rparr>"
    let ?xRoot = "\<lparr>ModFile = \<lparr>ModuleMod = Some (mv ''example.com/x'' []),
                    Require = [mv ''example.com/p'' ''v1.0.0'', mv ''example.com/q'' ''v1.0.0''],
                    Replace = []\<rparr>,
                  RootPath = ''/src/xb''\<rparr>"
    let ?u = "\<lparr>Root = Module (mv ''example.com/app'' []) None None
          [Module (mv ''example.com/kit'' ''v1.0.0'') (Some (mv ''../kit'' []))
             (Some \<lparr>Data = ''MIT License'', Name = ''MIT''\<rparr>)
             [Module (mv ''example.com/x'' ''v1.0.0'') (Some (mv ''../xb'' []))
                (Some \<lparr>Data = ''MIT License'', Name = ''MIT''\<rparr>) ?pq]]\<rparr>"
    let ?ek = "extractLicenseAndRequiredModules (exEnv False) ?K ?kit newGraphBuilder"
    let ?g1 = "snd (licenseOf (exEnv False) ?kit ''MIT License'' (snd ?ek))"
    let ?ex = "extractLicenseAndRequiredModules (exEnv False) ?kitRoot ?x ?g1"
    have ldK: "loadModulesFromModFile ?K = [?kit]" by code_simp
    have d0: "(0::int) \<noteq> 2" by simp
    have d1: "(0::int) + 1 + 1 = 2" by simp
    have ck: "getModuleFromCache newGraphBuilder ?kit = None" by code_simp
    have "fst ?ek = Inr (Some ?kitRoot, ''MIT License'', [?x])" by code_simp
    then have ek: "?ek = (Inr (Some ?kitRoot, ''MIT License'', [?x]), snd ?ek)"
      by (metis prod.collapse)
    have "fst (licenseOf (exEnv False) ?kit ''MIT License'' (snd ?ek))
            = Inr (''MIT'', ''MIT License'')"
      by (simp add: licenseOf_def exEnv_def exDetect_def)
    then have lk: "licenseOf (exEnv False) ?kit ''MIT License'' (snd ?ek)
                     = (Inr (''MIT'', ''MIT License''), ?g1)"
      by (metis prod.collapse)
    have cx: "getModuleFromCache ?g1 ?x = None" by code_simp
    have "fst ?ex = Inr (Some ?xRoot, ''MIT License'', ?pq)" by code_simp
    then have ex: "?ex = (Inr (Some ?xRoot, ''MIT License'', ?pq), snd ?ex)"
      by (metis prod.collapse)
    have "fst (licenseOf (exEnv False) ?x ''MIT License'' (snd ?ex))
            = Inr (''MIT'', ''MIT License'')"
      by (simp add: licenseOf_def exEnv_def exDetect_def)
    then have lx: "licenseOf (exEnv False) ?x ''MIT License'' (snd ?ex)
                     = (Inr (''MIT'', ''MIT License''),
                        snd (licenseOf (exEnv False) ?x ''MIT License'' (snd ?ex)))"
      by (metis prod.collapse)
    have fx: "foundAtBound (exEnv False) 2 (Suc 0) ?kitRoot [?x] (0 + 1) ?g1 ?x ?pq"
      by (rule foundAtBound.here[OF d1 cx ex lx])
    have fk: "foundAtBound (exEnv False) 2 (Suc (Suc 0)) ?K (loadModulesFromModFile ?K) 0
                newGraphBuilder ?x ?pq"
      unfolding ldK by (rule foundAtBound.below[OF d0 ck ek lk fx])
    have "map_option fst (buildGraph (Suc (Suc 0)) (exEnv False) ?K 2 newGraphBuilder)
            = Some (Inr ?u)"
      by code_simp
    then obtain gb2 where
      run2: "buildGraph (Suc (Suc 0)) (exEnv False) ?K 2 newGraphBuilder = Some (Inr ?u, gb2)"
      by auto
    from nodes_at_depth_bound_stay_bare
           [of "Suc (Suc 0)" "exEnv False" ?K newGraphBuilder 2 ?x ?pq ?u gb2 "[]"]
         fk run2
    show ?thesis by simp
  qed
  from first second show ?thesis by blast
qed

text \<open>
  Claim C2 as stated (the nodes at the bound have their license resolved) fails: with
  \<open>maxDepth = 1\<close> the requirements \<open>zed\<close> and \<open>a\<close> of the replaced module \<open>lib\<close> are
  discovered at depth 1 and are in the graph with a nil license.
\<close>

theorem depth_bound_license_counterexample:
  "map_option fst
     (buildGraph (Suc 0) (exEnv False)
        (exRoot [mv ''example.com/lib'' ''v0.1.0'']
                [(mv ''example.com/lib'' ''v0.1.0'', mv ''../lib'' [])])
        1 newGraphBuilder)
   = Some (Inr \<lparr>Root = Module (mv ''example.com/app'' []) None None
        [Module (mv ''example.com/lib'' ''v0.1.0'') (Some (mv ''../lib'' []))
           (Some \<lparr>Data = ''MIT License'', Name = ''MIT''\<rparr>)
           [Module (mv ''example.com/zed'' ''v2.0.0'') None None [],
            Module (mv ''example.com/a'' ''v1.0.0'') None None []]]\<rparr>)"
  by code_simp

section \<open>An unreadable replacement directory\<close>

text \<open>
  Claim C10: when the directory of a replaced module cannot be listed, the resolution
  ends the process (\<open>log.Fatal\<close>), in strict and in lenient mode alike: the content
  resolver and the traversal end in \<open>Exit\<close> with the error of \<open>ReadDir\<close>, which is
  neither an error value returned to the caller (\<open>Err\<close>) nor a result with a placeholder
  (\<open>Inr\<close>); nothing is logged and only \<open>ReadDir\<close> was called.
\<close>

theorem unreadable_replacement_exits:
  assumes "depth \<noteq> maxDepth" and "getModuleFromCache gb m = None"
    and "ReplacedBy m = Some r"
    and "ReadDir e (Join e (RootPath modRoot) (Path r)) = Inl err"
  shows "extractLicenseAndRequiredModules e modRoot m gb
           = (Inl (Exit err), called (CallReadDir (Join e (RootPath modRoot) (Path r))) gb)
         \<and> buildModulesDependencyGraph fuel e modRoot (m # mods) depth maxDepth gb
           = Some (Inl (Exit err), called (CallReadDir (Join e (RootPath modRoot) (Path r))) gb)"
  using assms build_resolver_aborts extract_unreadable_dir by simp

theorem unreadable_replacement_exits_witness:
  "map_option fst
     (buildModulesDependencyGraph 0 (exEnv True) (exRoot [] [])
        [Module (mv ''example.com/none'' ''v1.0.0'') (Some (mv ''../none'' [])) None []]
        0 1 newGraphBuilder)
     = Some (Inl (Exit (External ''no such file or directory'')))
   \<and> map_option fst
     (buildModulesDependencyGraph 0 (exEnv False) (exRoot [] [])
        [Module (mv ''example.com/none'' ''v1.0.0'') (Some (mv ''../none'' [])) None []]
        0 1 newGraphBuilder)
     = Some (Inl (Exit (External ''no such file or directory'')))"
proof -
  let ?m = "Module (mv ''example.com/none'' ''v1.0.0'') (Some (mv ''../none'' [])) None []"
  have d: "(0::int) \<noteq> 1" by simp
  have c: "getModuleFromCache newGraphBuilder ?m = None" by code_simp
  have r: "ReplacedBy ?m = Some (mv ''../none'' [])" by simp
  have l: "ReadDir (exEnv True) (Join (exEnv True) (RootPath (exRoot [] [])) (Path (mv ''../none'' [])))
             = Inl (External ''no such file or directory'')"
    by code_simp
  have s: "ReadDir (exEnv False) (Join (exEnv False) (RootPath (exRoot [] [])) (Path (mv ''../none'' [])))
             = Inl (External ''no such file or directory'')"
    by code_simp
  show ?thesis
    using unreadable_replacement_exits[OF d c r l, of 0 "[]"]
          unreadable_replacement_exits[OF d c r s, of 0 "[]"]
    by simp
qed

section \<open>A failed download\<close>

text \<open>
  Claim C8, as amended: when the download of the archive of a module fails, in strict
  mode the traversal aborts with the download error; in lenient mode the content resolver
  logs the error and returns no manifest, empty license bytes and no required modules,
  and the traversal goes on with the remaining modules: the module is kept as a node
  with no children added, its License Record is the \<open>Unknown\<close> placeholder (not an
  empty license), a second warning is logged and the node is cached.
\<close>

theorem download_failure_policy:
  assumes "depth \<noteq> maxDepth" and "getModuleFromCache gb m = None"
    and "ReplacedBy m = None"
    and "downloadModule e (Version m) = Inl err"
  shows "(\<not> lenient e \<longrightarrow>
            buildModulesDependencyGraph fuel e modRoot (m # mods) depth maxDepth gb
              = Some (Inl (Err err), called (CallDownload (Version m)) gb))
       \<and> (lenient e \<longrightarrow>
            extractLicenseAndRequiredModules e modRoot m gb
              = (Inr (None, [], []),
                 warned (GotDownloadError err) (called (CallDownload (Version m)) gb))
          \<and> buildModulesDependencyGraph fuel e modRoot (m # mods) depth maxDepth gb
              = continue
                  (Module (Version m) None
                     (Some \<lparr>Data = unknownLicenseText e (Version m), Name = ''Unknown''\<rparr>)
                     (Dependencies m))
                  (buildModulesDependencyGraph fuel e modRoot mods depth maxDepth
                     (cacheModule
                        (Module (Version m) None
                           (Some \<lparr>Data = unknownLicenseText e (Version m), Name = ''Unknown''\<rparr>)
                           (Dependencies m))
                        (warned (NoLicenseFound (Version m))
                           (warned (GotDownloadError err)
                              (called (CallDownload (Version m)) gb))))))"
proof (cases "lenient e")
  case True
  have ex: "extractLicenseAndRequiredModules e modRoot m gb
              = (Inr (None, [], []),
                 warned (GotDownloadError err) (called (CallDownload (Version m)) gb))"
    using assms(3,4) True by (simp add: extract_download_fails)
  show ?thesis
    using True ex build_leaf[OF assms(1,2) ex licenseOf_lenient_empty[OF True]] assms(3)
    by simp
next
  case False
  have "extractLicenseAndRequiredModules e modRoot m gb
          = (Inl (Err err), called (CallDownload (Version m)) gb)"
    using assms(3,4) False by (simp add: extract_download_fails)
  from build_resolver_aborts[OF assms(1,2) this] False show ?thesis by simp
qed

theorem download_failure_policy_witness:
  "map_option fst
     (buildModulesDependencyGraph 0 (exEnv False) (exRoot [] [])
        [Module (mv ''example.com/gone'' ''v0.3.0'') None None [],
         Module (mv ''example.com/zed'' ''v2.0.0'') None None []]
        0 1 newGraphBuilder)
     = Some (Inl (Err (External ''404 Not Found'')))
   \<and> map_option (\<lambda>r. (fst r, logger (snd r)))
     (buildModulesDependencyGraph 0 (exEnv True) (exRoot [] [])
        [Module (mv ''example.com/gone'' ''v0.3.0'') None None [],
         Module (mv ''example.com/zed'' ''v2.0.0'') None None []]
        0 1 newGraphBuilder)
     = Some (Inr [Module (mv ''example.com/gone'' ''v0.3.0'') None
                    (Some \<lparr>Data = unknownLicenseText (exEnv True) (mv ''example.com/gone'' ''v0.3.0''),
                           Name = ''Unknown''\<rparr>) [],
                  Module (mv ''example.com/zed'' ''v2.0.0'') None
                    (Some \<lparr>Data = ''MIT License'', Name = ''MIT''\<rparr>) []],
             [GotDownloadError (External ''404 Not Found''),
              NoLicenseFound (mv ''example.com/gone'' ''v0.3.0'')])"
proof -
  let ?m = "Module (mv ''example.com/gone'' ''v0.3.0'') None None []"
  let ?ms = "[Module (mv ''example.com/zed'' ''v2.0.0'') None None []]"
  have d: "(0::int) \<noteq> 1" by simp
  have c: "getModuleFromCache newGraphBuilder ?m = None" by code_simp
  have r: "ReplacedBy ?m = None" by simp
  have s: "downloadModule (exEnv False) (Version ?m) = Inl (External ''404 Not Found'')"
    by code_simp
  have l: "downloadModule (exEnv True) (Version ?m) = Inl (External ''404 Not Found'')"
    by code_simp
  have ls: "\<not> lenient (exEnv False)" "lenient (exEnv True)" by (simp_all add: exEnv_def)
  have rest: "map_option (\<lambda>r. (fst r, logger (snd r)))
     (buildModulesDependencyGraph 0 (exEnv True) (exRoot [] []) ?ms 0 1
        (cacheModule
           (Module (Version ?m) None
              (Some \<lparr>Data = unknownLicenseText (exEnv True) (Version ?m), Name = ''Unknown''\<rparr>)
              (Dependencies ?m))
           (warned (NoLicenseFound (Version ?m))
              (warned (GotDownloadError (External ''404 Not Found''))
                 (called (CallDownload (Version ?m)) newGraphBuilder)))))
     = Some (Inr [Module (mv ''example.com/zed'' ''v2.0.0'') None
                    (Some \<lparr>Data = ''MIT License'', Name = ''MIT''\<rparr>) []],
             [GotDownloadError (External ''404 Not Found''),
              NoLicenseFound (mv ''example.com/gone'' ''v0.3.0'')])"
    by code_simp
  show ?thesis
    using download_failure_policy[OF d c r s, of 0 "exRoot [] []" ?ms]
          download_failure_policy[OF d c r l, of 0 "exRoot [] []" ?ms] ls rest
    by (auto simp: continue_eq_Some)
qed

text \<open>
  Claim C8 as stated (in lenient mode the module has an empty license) fails: the node
  of the module whose download failed carries the non-empty placeholder text and the
  label \<open>Unknown\<close>.
\<close>

theorem download_failure_license_counterexample:
  "map_option fst
     (buildGraph 0 (exEnv True) (exRoot [mv ''example.com/gone'' ''v0.3.0''] []) 1
        newGraphBuilder)
   = Some (Inr \<lparr>Root = Module (mv ''example.com/app'' []) None None
        [Module (mv ''example.com/gone'' ''v0.3.0'') None
           (Some \<lparr>Data = ''WARNING: YOU MUST OVERRIDE THIS WITH A PROPER LICENSE'' @ [CHR 0x0A]
                          @ ''UNKNOWN LICENSE FOR '' @ [CHR 0x22] @ ''example.com/gone@v0.3.0''
                          @ [CHR 0x22],
                  Name = ''Unknown''\<rparr>) []]\<rparr>)"
  by code_simp

section \<open>A module without a manifest\<close>

text \<open>
  Claim C4: a required module for which the content resolver finds no manifest
  (\<open>ErrorGoModFileNotFound\<close>) does not abort the build, in strict and in lenient mode:
  the resolver returns no child manifest and no required modules, the module becomes a
  leaf node with its license and no children, it is cached, and the traversal goes on
  with the remaining modules. The license is the one found in the archive, or, in
  lenient mode only, the empty text when the archive has none; the hypothesis on
  \<open>licenseOf\<close> says that the classification of this license does not fail.
\<close>

theorem missing_manifest_is_leaf:
  assumes "depth \<noteq> maxDepth" and "getModuleFromCache gb m = None"
    and "m \<in> set (loadModulesFromModFile parent)"
    and "ReplacedBy m = None"
    and "downloadModule e (Version m) = Inr moduleZip"
    and "getRequiredModules e (Ver (Version m)) moduleZip = Inl ErrorGoModFileNotFound"
    and "extractLicense e (versionString (Version m)) moduleZip = Inr license
         \<or> (extractLicense e (versionString (Version m)) moduleZip = Inl ErrorLicenseNotFound
            \<and> lenient e \<and> license = [])"
    and "licenseOf e m license (called (CallDownload (Version m)) gb)
           = (Inr (licenseType, license'), gb2)"
  shows "extractLicenseAndRequiredModules e modRoot m gb
           = (Inr (None, license, []), called (CallDownload (Version m)) gb)
       \<and> buildModulesDependencyGraph fuel e modRoot (m # mods) depth maxDepth gb
           = continue
               (Module (Version m) None (Some \<lparr>Data = license', Name = licenseType\<rparr>) [])
               (buildModulesDependencyGraph fuel e modRoot mods depth maxDepth
                  (cacheModule
                     (Module (Version m) None (Some \<lparr>Data = license', Name = licenseType\<rparr>) [])
                     gb2))"
proof -
  have ex: "extractLicenseAndRequiredModules e modRoot m gb
              = (Inr (None, license, []), called (CallDownload (Version m)) gb)"
    using assms(4,5,6,7) by (auto simp: extract_remote)
  from load_bare[OF assms(3)] have "Dependencies m = []" by simp
  with build_leaf[OF assms(1,2) ex assms(8)] assms(4) ex show ?thesis by simp
qed

theorem missing_manifest_is_leaf_witness:
  "map_option fst
     (buildModulesDependencyGraph 0 (exEnv False) (exRoot [] [])
        [Module (mv ''example.com/zed'' ''v2.0.0'') None None [],
         Module (mv ''example.com/a'' ''v1.0.0'') None None []]
        0 2 newGraphBuilder)
     = Some (Inr [Module (mv ''example.com/zed'' ''v2.0.0'') None
                    (Some \<lparr>Data = ''MIT License'', Name = ''MIT''\<rparr>) [],
                  Module (mv ''example.com/a'' ''v1.0.0'') None
                    (Some \<lparr>Data = ''MIT License'', Name = ''MIT''\<rparr>) []])
   \<and> map_option fst
     (buildModulesDependencyGraph 0 (exEnv True) (exRoot [] [])
        [Module (mv ''example.com/zed'' ''v2.0.0'') None None [],
         Module (mv ''example.com/a'' ''v1.0.0'') None None []]
        0 2 newGraphBuilder)
     = Some (Inr [Module (mv ''example.com/zed'' ''v2.0.0'') None
                    (Some \<lparr>Data = ''MIT License'', Name = ''MIT''\<rparr>) [],
                  Module (mv ''example.com/a'' ''v1.0.0'') None
                    (Some \<lparr>Data = ''MIT License'', Name = ''MIT''\<rparr>) []])"
proof -
  let ?m = "Module (mv ''example.com/zed'' ''v2.0.0'') None None []"
  let ?m' = "Module (mv ''example.com/zed'' ''v2.0.0'') None
               (Some \<lparr>Data = ''MIT License'', Name = ''MIT''\<rparr>) []"
  let ?ms = "[Module (mv ''example.com/a'' ''v1.0.0'') None None []]"
  let ?parent = "exRoot [mv ''example.com/zed'' ''v2.0.0''] []"
  let ?gb2 = "called (CallDetectLicense ''MIT License'')
                (called (CallDownload (Version ?m)) newGraphBuilder)"
  have d: "(0::int) \<noteq> 2" by simp
  have c: "getModuleFromCache newGraphBuilder ?m = None" by code_simp
  have p: "?m \<in> set (loadModulesFromModFile ?parent)"
    by (simp add: loadModulesFromModFile_def replacementMap_def exRoot_def)
  have r: "ReplacedBy ?m = None" by simp
  have dl: "downloadModule (exEnv l) (Version ?m) = Inr ''zip zed''" for l by code_simp
  have nm: "getRequiredModules (exEnv l) (Ver (Version ?m)) ''zip zed''
              = Inl ErrorGoModFileNotFound" for l
    by code_simp
  have li: "extractLicense (exEnv l) (versionString (Version ?m)) ''zip zed''
              = Inr ''MIT License''
            \<or> (extractLicense (exEnv l) (versionString (Version ?m)) ''zip zed''
                  = Inl ErrorLicenseNotFound
               \<and> lenient (exEnv l) \<and> ''MIT License'' = [])" for l
    by code_simp
  have lo: "licenseOf (exEnv l) ?m ''MIT License''
              (called (CallDownload (Version ?m)) newGraphBuilder)
              = (Inr (''MIT'', ''MIT License''), ?gb2)" for l
    by (simp add: licenseOf_def exEnv_def exDetect_def)
  have restF: "map_option fst
     (buildModulesDependencyGraph 0 (exEnv False) (exRoot [] []) ?ms 0 2 (cacheModule ?m' ?gb2))
     = Some (Inr [Module (mv ''example.com/a'' ''v1.0.0'') None
                    (Some \<lparr>Data = ''MIT License'', Name = ''MIT''\<rparr>) []])"
    by code_simp
  have restT: "map_option fst
     (buildModulesDependencyGraph 0 (exEnv True) (exRoot [] []) ?ms 0 2 (cacheModule ?m' ?gb2))
     = Some (Inr [Module (mv ''example.com/a'' ''v1.0.0'') None
                    (Some \<lparr>Data = ''MIT License'', Name = ''MIT''\<rparr>) []])"
    by code_simp
  show ?thesis
    using missing_manifest_is_leaf[where e = "exEnv False" and fuel = 0
            and modRoot = "exRoot [] []" and mods = ?ms, OF d c p r dl nm li lo]
          missing_manifest_is_leaf[where e = "exEnv True" and fuel = 0
            and modRoot = "exRoot [] []" and mods = ?ms, OF d c p r dl nm li lo]
          restF restT
    by (auto simp: continue_eq_Some)
qed

text \<open>
  The directory of a replaced module without a \<open>go.mod\<close>: the resolver reads the empty
  path, the filesystem refuses, and the module is returned without manifest.
\<close>

lemma scan_without_manifest:
  "\<forall>f \<in> set files. fileName f \<noteq> ''go.mod'' \<Longrightarrow>
     snd (fst (scanLocalFiles e fullPath files (licenseFile, goMod) gb)) = goMod"
  by (induction files arbitrary: licenseFile gb) auto

lemma local_missing_manifest_is_tolerated:
  assumes "ReplacedBy m = Some r"
    and "ReadDir e (Join e (RootPath modRoot) (Path r)) = Inr files"
    and "\<forall>f \<in> set files. fileName f \<noteq> ''go.mod''"
    and "snd (ReadFile e []) = Some err"
  shows "\<exists>license gb1.
           extractLicenseAndRequiredModules e modRoot m gb = (Inr (None, license, []), gb1)"
proof -
  let ?p = "Join e (RootPath modRoot) (Path r)"
  obtain licenseFile goMod gb2 where
    sc: "scanLocalFiles e ?p files ([], []) (called (CallReadDir ?p) gb)
           = ((licenseFile, goMod), gb2)"
    by (metis surj_pair)
  from scan_without_manifest[OF assms(3), of e ?p "[]" "[]" "called (CallReadDir ?p) gb"] sc
  have "goMod = []" by simp
  with assms(4) have "fst (getRequiredModulesFromFile e goMod gb2) = Inl err"
    by (cases "ReadFile e []") (simp add: getRequiredModulesFromFile_def Let_def)
  then obtain gb3 where "getRequiredModulesFromFile e goMod gb2 = (Inl err, gb3)"
    by (cases "getRequiredModulesFromFile e goMod gb2") simp
  with assms(1,2) sc show ?thesis
    by (simp add: extractLicenseAndRequiredModules_def Let_def)
qed

section \<open>A module without a license\<close>










section \<open>A malformed manifest\<close>

lemma remote_parse_failure_aborts:
  assumes "depth \<noteq> maxDepth" and "getModuleFromCache gb m = None"
    and "ReplacedBy m = None"
    and "downloadModule e (Version m) = Inr moduleZip"
    and "extractLicense e (versionString (Version m)) moduleZip = Inr license"
    and "getRequiredModules e (Ver (Version m)) moduleZip = Inl err"
    and "err \<noteq> ErrorGoModFileNotFound"
  shows "buildModulesDependencyGraph fuel e modRoot (m # mods) depth maxDepth gb
           = Some (Inl (Err err), called (CallDownload (Version m)) gb)"
proof -
  have "extractLicenseAndRequiredModules e modRoot m gb
          = (Inl (Err err), called (CallDownload (Version m)) gb)"
    using assms(3-7) by (simp add: extract_remote)
  from build_resolver_aborts[OF assms(1,2) this] show ?thesis .
qed

text \<open>
  Claim C3: a manifest whose bytes are obtained and fail to parse aborts the whole
  build, in both modes and on both resolution strategies.

  The registry path does so (lemma \<open>remote_parse_failure_aborts\<close>, and the last
  conjunct below). The path for a replaced module does not: the error of
  \<open>getRequiredModulesFromFile\<close> is dropped. The file \<open>/src/bad/go.mod\<close> is read
  without error and the parser rejects it, yet the build succeeds in strict and in
  lenient mode, with the module as a leaf.
\<close>

theorem local_parse_failure_is_swallowed:
  "ReadFile (exEnv False) ''/src/bad/go.mod'' = (''<<<<<<< HEAD'', None)
   \<and> modfileParse (exEnv False) ''<<<<<<< HEAD'' = Inl (External ''go.mod:1: unknown directive'')
   \<and> map_option fst
       (buildGraph 0 (exEnv False)
          (exRoot [mv ''example.com/bad'' ''v1.1.0'']
                  [(mv ''example.com/bad'' ''v1.1.0'', mv ''../bad'' [])])
          1 newGraphBuilder)
     = Some (Inr \<lparr>Root = Module (mv ''example.com/app'' []) None None
         [Module (mv ''example.com/bad'' ''v1.1.0'') (Some (mv ''../bad'' []))
            (Some \<lparr>Data = ''MIT License'', Name = ''MIT''\<rparr>) []]\<rparr>)
   \<and> map_option fst
       (buildGraph 0 (exEnv True)
          (exRoot [mv ''example.com/bad'' ''v1.1.0'']
                  [(mv ''example.com/bad'' ''v1.1.0'', mv ''../bad'' [])])
          1 newGraphBuilder)
     = Some (Inr \<lparr>Root = Module (mv ''example.com/app'' []) None None
         [Module (mv ''example.com/bad'' ''v1.1.0'') (Some (mv ''../bad'' []))
            (Some \<lparr>Data = ''MIT License'', Name = ''MIT''\<rparr>) []]\<rparr>)
   \<and> map_option fst
       (buildGraph 0 (exEnv False) (exRoot [mv ''example.com/yak'' ''v1.1.0''] []) 1
          newGraphBuilder)
     = Some (Inl (Err (Errorf ''cannot build modules tree: ''
                         (External ''go.mod:1: unknown directive''))))"
  by code_simp

section \<open>Locating the manifest in an archive\<close>

text \<open>
  Claim C7: in a fetched archive the manifest is the entry whose name, after the
  lower-cased full identity \<open>path@version\<close> is stripped, is \<open>/go.mod\<close>, and the license
  is found by the file name heuristic after the same stripping.

  The license is located so. For the manifest the resolver passes the version alone to
  \<open>getRequiredModules\<close>, which strips it as it is: the archive of \<open>example.com/a@v1.0.0\<close>
  holds \<open>example.com/a@v1.0.0/go.mod\<close>, and the resolver returns the license and no
  manifest. Stripping the lower-cased full identity finds the manifest.
\<close>

theorem manifest_prefix_is_version_only:
  "zipNewReader (exEnv False) ''zip a''
     = Inr [\<lparr>zipName = ''example.com/a@v1.0.0/LICENSE'', zipOpen = Inr (Inr ''MIT License'')\<rparr>,
            \<lparr>zipName = ''example.com/a@v1.0.0/go.mod'', zipOpen = Inr (Inr ''module a'')\<rparr>]
   \<and> fst (extractLicenseAndRequiredModules (exEnv False) (exRoot [] [])
            (Module (mv ''example.com/a'' ''v1.0.0'') None None []) newGraphBuilder)
     = Inr (None, ''MIT License'', [])
   \<and> getRequiredModules (exEnv False) (Ver (mv ''example.com/a'' ''v1.0.0'')) ''zip a''
     = Inl ErrorGoModFileNotFound
   \<and> getRequiredModules (exEnv False)
        (ToLower (exEnv False) (versionString (mv ''example.com/a'' ''v1.0.0''))) ''zip a''
     = Inr (\<lparr>ModFile = \<lparr>ModuleMod = Some (mv ''example.com/a'' []),
                           Require = [mv ''example.com/zed'' ''v2.0.0''], Replace = []\<rparr>,
             RootPath = []\<rparr>,
            [Module (mv ''example.com/zed'' ''v2.0.0'') None None []])"
  by code_simp

section \<open>A replaced module is resolved on the filesystem\<close>

lemma scan_ignores_download:
  "scanLocalFiles (e\<lparr>downloadModule := d\<rparr>) fullPath files acc gb
     = scanLocalFiles e fullPath files acc gb"
  by (induction e fullPath files acc gb rule: scanLocalFiles.induct)
     (simp_all add: isLicenseFilename_def)

lemma manifest_file_ignores_download:
  "getRequiredModulesFromFile (e\<lparr>downloadModule := d\<rparr>) p gb
     = getRequiredModulesFromFile e p gb"
  by (simp add: getRequiredModulesFromFile_def Let_def
           cong: prod.case_cong option.case_cong sum.case_cong)

lemma extract_local_ignores_download:
  "ReplacedBy m = Some r \<Longrightarrow>
     extractLicenseAndRequiredModules (e\<lparr>downloadModule := d\<rparr>) modRoot m gb
       = extractLicenseAndRequiredModules e modRoot m gb"
  by (simp add: extractLicenseAndRequiredModules_def scan_ignores_download
                manifest_file_ignores_download Let_def
           cong: prod.case_cong option.case_cong sum.case_cong)

text \<open>
  Claim C6: for a required module that carries a replacement the archive retrieval is
  never invoked; its manifest and its license are read from the path of the replacement
  joined to the root path of the parent manifest.

  The content resolver does so whenever it is called for such a module (lemma
  \<open>extract_local_ignores_download\<close>: its outcome does not depend on the archive
  retrieval), but the traversal calls it only when the cache has no entry under the key
  of the module, and \<open>moduleID\<close> leaves the replacement out of the key. The root manifest
  below requires \<open>lib\<close> and \<open>zed\<close> and replaces \<open>zed\<close> by the directory \<open>../bare\<close>, which
  holds a \<open>README.md\<close> only; \<open>lib\<close> requires \<open>zed\<close> without a replacement. The build
  downloads the archive of \<open>zed\<close> for \<open>lib\<close>, and the replaced \<open>zed\<close> of the root gets the
  license of that archive from the cache: \<open>/src/bare\<close> is never listed and no file of it
  is read. The content resolver, called for the replaced \<open>zed\<close>, lists \<open>/src/bare\<close> and
  finds no license and no manifest, and the strict build of the root manifest that
  requires the replaced \<open>zed\<close> alone ends with the error of the classifier on the empty
  text.
\<close>

theorem replaced_module_served_from_download:
  "map_option (\<lambda>r. (fst r, calls (snd r)))
     (buildGraph 2 (exEnv False)
        (exRoot [mv ''example.com/lib'' ''v0.1.0'', mv ''example.com/zed'' ''v2.0.0'']
                [(mv ''example.com/lib'' ''v0.1.0'', mv ''../lib'' []),
                 (mv ''example.com/zed'' ''v2.0.0'', mv ''../bare'' [])])
        2 newGraphBuilder)
   = Some (Inr \<lparr>Root = Module (mv ''example.com/app'' []) None None
        [Module (mv ''example.com/lib'' ''v0.1.0'') (Some (mv ''../lib'' []))
           (Some \<lparr>Data = ''MIT License'', Name = ''MIT''\<rparr>)
           [Module (mv ''example.com/zed'' ''v2.0.0'') None
              (Some \<lparr>Data = ''MIT License'', Name = ''MIT''\<rparr>) [],
            Module (mv ''example.com/a'' ''v1.0.0'') None
              (Some \<lparr>Data = ''MIT License'', Name = ''MIT''\<rparr>) []],
         Module (mv ''example.com/zed'' ''v2.0.0'') (Some (mv ''../bare'' []))
           (Some \<lparr>Data = ''MIT License'', Name = ''MIT''\<rparr>) []]\<rparr>,
      [CallReadDir ''/src/lib'', CallReadFile ''/src/lib/LICENSE'',
       CallReadFile ''/src/lib/go.mod'', CallDetectLicense ''MIT License'',
       CallDownload (mv ''example.com/zed'' ''v2.0.0''), CallDetectLicense ''MIT License'',
       CallDownload (mv ''example.com/a'' ''v1.0.0''), CallDetectLicense ''MIT License''])
   \<and> Join (exEnv False) ''/src/app'' ''../bare'' = ''/src/bare''
   \<and> ReadDir (exEnv False) ''/src/bare'' = Inr [\<lparr>fileName = ''README.md'', IsDir = False\<rparr>]
   \<and> (\<lambda>r. (fst r, calls (snd r)))
       (extractLicenseAndRequiredModules (exEnv False)
          (exRoot [mv ''example.com/lib'' ''v0.1.0'', mv ''example.com/zed'' ''v2.0.0'']
                  [(mv ''example.com/lib'' ''v0.1.0'', mv ''../lib'' []),
                   (mv ''example.com/zed'' ''v2.0.0'', mv ''../bare'' [])])
          (Module (mv ''example.com/zed'' ''v2.0.0'') (Some (mv ''../bare'' [])) None [])
          newGraphBuilder)
     = (Inr (None, [], []), [CallReadDir ''/src/bare'', CallReadFile []])
   \<and> map_option (\<lambda>r. (fst r, calls (snd r)))
     (buildGraph 2 (exEnv False)
        (exRoot [mv ''example.com/zed'' ''v2.0.0'']
                [(mv ''example.com/zed'' ''v2.0.0'', mv ''../bare'' [])])
        2 newGraphBuilder)
   = Some (Inl (Err (Errorf ''cannot build modules tree: '' (External ''unknown license''))),
      [CallReadDir ''/src/bare'', CallReadFile [], CallDetectLicense []])"
  by code_simp

section \<open>Order of the children\<close>

lemma load_identities:
  "map Version (loadModulesFromModFile r) = Require (ModFile r)"
  "map ReplacedBy (loadModulesFromModFile r)
     = map (replacementMap (ModFile r)) (Require (ModFile r))"
  by (simp_all add: loadModulesFromModFile_def Let_def comp_def)

text \<open>
  The traversal keeps the modules of a list in their order, each with its identity and
  its replacement, and the children of the root are the requirements of the root
  manifest in the declared order.
\<close>

lemma build_keeps_identities:
  "buildModulesDependencyGraph fuel e modRoot mods depth maxDepth gb = Some (Inr res, gb') \<Longrightarrow>
     map Version res = map Version mods \<and> map ReplacedBy res = map ReplacedBy mods"
proof (induction mods arbitrary: res gb gb')
  case Nil
  then show ?case by simp
next
  case (Cons m mods)
  from build_head_then_rest[OF Cons.prems] obtain h t g where
    h: "buildModulesDependencyGraph fuel e modRoot [m] depth maxDepth gb = Some (Inr [h], g)"
    and t: "buildModulesDependencyGraph fuel e modRoot mods depth maxDepth g = Some (Inr t, gb')"
    and r: "res = h # t"
    by blast
  from h have "Version h = Version m \<and> ReplacedBy h = ReplacedBy m"
    by (cases rule: build_Cons_Inr) auto
  with Cons.IH[OF t] r show ?case by simp
qed

lemma root_children_are_requirements:
  assumes "buildGraph fuel e modRoot maxDepth gb = Some (Inr t, gb')"
  shows "ModuleMod (ModFile modRoot) = Some (Version (Root t))
         \<and> ReplacedBy (Root t) = None \<and> License (Root t) = None
         \<and> map Version (Dependencies (Root t)) = Require (ModFile modRoot)
         \<and> map ReplacedBy (Dependencies (Root t))
             = map (replacementMap (ModFile modRoot)) (Require (ModFile modRoot))"
proof -
  from assms obtain res v where
    run: "buildModulesDependencyGraph fuel e modRoot (loadModulesFromModFile modRoot) 0
            maxDepth gb = Some (Inr res, gb')"
    and v: "ModuleMod (ModFile modRoot) = Some v"
    and t: "t = \<lparr>Root = Module v None None res\<rparr>"
    by (auto simp: buildGraph_def Let_def split: option.splits sum.splits abort.splits)
  from build_keeps_identities[OF run] v t show ?thesis
    by (simp add: load_identities)
qed

text \<open>
  Claim C9: in a successful build the root of the graph is a node for the root module
  with no license, its children are the requirements of the root manifest in the
  declared order, and the children of every node are in the order of the requirement
  list of the manifest of that node.

  The root and its children are so (lemma \<open>root_children_are_requirements\<close>). The
  children of a node served from the cache are those of the cached module, and
  \<open>moduleID\<close> leaves the replacement out of the cache key. The root manifest below requires
  \<open>kit\<close> and \<open>x\<close> and replaces \<open>x\<close> by the directory \<open>../xa\<close>, whose manifest requires \<open>q\<close>,
  then \<open>p\<close>; the manifest of \<open>kit\<close> requires \<open>x\<close> too and replaces it by \<open>../xb\<close>, whose
  manifest requires \<open>p\<close>, then \<open>q\<close>. In the graph the node of the root's \<open>x\<close>, replaced by
  \<open>../xa\<close>, has the children \<open>p\<close>, \<open>q\<close>: the order of the manifest of \<open>../xb\<close>. The content
  resolver, called for that module, returns the manifest of \<open>../xa\<close> with \<open>q\<close>, \<open>p\<close>, and the
  build of the root manifest that requires this \<open>x\<close> alone gives it the children \<open>q\<close>, \<open>p\<close>.
\<close>

theorem children_order_of_colliding_entry:
  "map_option fst
     (buildGraph 2 (exEnv False)
        (exRoot [mv ''example.com/kit'' ''v1.0.0'', mv ''example.com/x'' ''v1.0.0'']
                [(mv ''example.com/kit'' ''v1.0.0'', mv ''../kit'' []),
                 (mv ''example.com/x'' ''v1.0.0'', mv ''../xa'' [])])
        2 newGraphBuilder)
   = Some (Inr \<lparr>Root = Module (mv ''example.com/app'' []) None None
        [Module (mv ''example.com/kit'' ''v1.0.0'') (Some (mv ''../kit'' []))
           (Some \<lparr>Data = ''MIT License'', Name = ''MIT''\<rparr>)
           [Module (mv ''example.com/x'' ''v1.0.0'') (Some (mv ''../xb'' []))
              (Some \<lparr>Data = ''MIT License'', Name = ''MIT''\<rparr>)
              [Module (mv ''example.com/p'' ''v1.0.0'') None None [],
               Module (mv ''example.com/q'' ''v1.0.0'') None None []]],
         Module (mv ''example.com/x'' ''v1.0.0'') (Some (mv ''../xa'' []))
           (Some \<lparr>Data = ''MIT License'', Name = ''MIT''\<rparr>)
           [Module (mv ''example.com/p'' ''v1.0.0'') None None [],
            Module (mv ''example.com/q'' ''v1.0.0'') None None []]]\<rparr>)
   \<and> fst (extractLicenseAndRequiredModules (exEnv False)
          (exRoot [mv ''example.com/kit'' ''v1.0.0'', mv ''example.com/x'' ''v1.0.0'']
                  [(mv ''example.com/kit'' ''v1.0.0'', mv ''../kit'' []),
                   (mv ''example.com/x'' ''v1.0.0'', mv ''../xa'' [])])
          (Module (mv ''example.com/x'' ''v1.0.0'') (Some (mv ''../xa'' [])) None [])
          newGraphBuilder)
     = Inr (Some \<lparr>ModFile = \<lparr>ModuleMod = Some (mv ''example.com/x'' []),
                     Require = [mv ''example.com/q'' ''v1.0.0'', mv ''example.com/p'' ''v1.0.0''],
                     Replace = []\<rparr>,
                  RootPath = ''/src/xa''\<rparr>,
            ''MIT License'',
            [Module (mv ''example.com/q'' ''v1.0.0'') None None [],
             Module (mv ''example.com/p'' ''v1.0.0'') None None []])
   \<and> map_option fst
     (buildGraph 2 (exEnv False)
        (exRoot [mv ''example.com/x'' ''v1.0.0'']
                [(mv ''example.com/x'' ''v1.0.0'', mv ''../xa'' [])])
        1 newGraphBuilder)
   = Some (Inr \<lparr>Root = Module (mv ''example.com/app'' []) None None
        [Module (mv ''example.com/x'' ''v1.0.0'') (Some (mv ''../xa'' []))
           (Some \<lparr>Data = ''MIT License'', Name = ''MIT''\<rparr>)
           [Module (mv ''example.com/q'' ''v1.0.0'') None None [],
            Module (mv ''example.com/p'' ''v1.0.0'') None None []]]\<rparr>)"
  by code_simp

end
